theory Spec2Isabelle
  imports Complex_Main "HOL-Library.AList"
begin

section \<open>Values shared by the scripts\<close>

text \<open>
  The exceptions the modelled functions can raise. A function that can raise returns
  \<open>error + 'a\<close>, with \<open>Inl\<close> for the exception.
\<close>

datatype error =
    AssertionError string
  | ValueError string
  | NameError string
  | AttributeError string
  | KeyError string
  | RuntimeError string
  | FileExistsError string
  | IndexError
  | ZeroDivisionError

text \<open>
  Python floats are modelled as reals: rounding is not modelled. The one special value the
  modelled code produces by itself is NaN (NumPy's mean of an empty array), so the result
  of a NumPy reduction is an \<open>npfloat\<close>.
\<close>

datatype npfloat = Num real | NaN

text \<open>\<open>a * c\<close> for a float \<open>a\<close> that may be NaN and a finite constant \<open>c\<close>.\<close>

fun np_times :: "npfloat \<Rightarrow> real \<Rightarrow> npfloat" where
  "np_times (Num a) c = Num (a * c)"
| "np_times NaN c = NaN"

text \<open>\<open>a > c\<close>: every comparison with NaN is False.\<close>

fun np_greater :: "npfloat \<Rightarrow> real \<Rightarrow> bool" where
  "np_greater (Num a) c = (a > c)"
| "np_greater NaN c = False"

text \<open>\<open>np.abs(a - t) > c\<close>.\<close>

fun np_abs_diff_greater :: "npfloat \<Rightarrow> real \<Rightarrow> real \<Rightarrow> bool" where
  "np_abs_diff_greater (Num a) t c = (\<bar>a - t\<bar> > c)"
| "np_abs_diff_greater NaN t c = False"

text \<open>
  \<open>np.mean\<close> of a one-dimensional array: the sum over the number of elements, NaN (with a
  RuntimeWarning) for the empty array. A Boolean array counts True as 1 and False as 0.
\<close>

definition np_mean :: "real list \<Rightarrow> npfloat" where
  "np_mean xs = (if xs = [] then NaN else Num (sum_list xs / real (length xs)))"

definition np_mean_bool :: "bool list \<Rightarrow> npfloat" where
  "np_mean_bool bs = np_mean (map (\<lambda>b. if b then 1 else 0) bs)"

text \<open>Membership in the closed interval from 0 to 100; NaN is in no interval.\<close>

fun in_percent_range :: "npfloat \<Rightarrow> bool" where
  "in_percent_range (Num a) = (0 \<le> a \<and> a \<le> 100)"
| "in_percent_range NaN = False"

text \<open>\<open>a \<le> b\<close> on floats; False as soon as one side is NaN.\<close>

fun np_le :: "npfloat \<Rightarrow> npfloat \<Rightarrow> bool" where
  "np_le (Num a) (Num b) = (a \<le> b)"
| "np_le _ _ = False"

section \<open>Detection thresholds: \<open>attacks/detect_attacks_logp_v2.py\<close>\<close>

text \<open>
  \<open>comp_detect\<close> (lines 108 to 118) and \<open>search_alpha\<close> (lines 120 to 137). The file
  \<open>attacks/detect_attacks_logp.py\<close> holds the same two functions, word for word, with
  \<open>torch.mean\<close> and \<open>torch.abs\<close> in the place of \<open>np.mean\<close> and \<open>np.abs\<close>; the embedding
  follows the NumPy file.
\<close>

definition comp_detect :: "real list \<Rightarrow> real \<Rightarrow> real \<Rightarrow> real \<Rightarrow> bool \<Rightarrow> npfloat" where
  "comp_detect x x_mean x_std alpha plus_flag =
     (let detect_rate =
        (if plus_flag then np_mean_bool (map (\<lambda>v. v > x_mean + alpha * x_std) x)
         else np_mean_bool (map (\<lambda>v. v < x_mean - alpha * x_std) x))
      in np_times detect_rate 100)"

text \<open>The local variables of \<open>search_alpha\<close>.\<close>

record sa_state =
  alpha_min :: real
  alpha_max :: real
  alpha_now :: real
  detect_rate :: npfloat
  T :: nat

text \<open>Lines 124 to 128: the state when the loop is reached.\<close>

definition sa_init :: "real list \<Rightarrow> real \<Rightarrow> real \<Rightarrow> bool \<Rightarrow> sa_state" where
  "sa_init x x_mean x_std plus_flag =
     \<lparr>alpha_min = 0.0, alpha_max = 3.0, alpha_now = 1.5,
      detect_rate = comp_detect x x_mean x_std 1.5 plus_flag, T = 0\<rparr>"

text \<open>Line 129: the loop condition.\<close>

definition sa_cond :: "real \<Rightarrow> sa_state \<Rightarrow> bool" where
  "sa_cond target_rate st =
     (np_abs_diff_greater (detect_rate st) target_rate 0.01 \<and> T st < 20)"

text \<open>Lines 130 to 136: one pass through the loop body.\<close>

definition sa_body :: "real list \<Rightarrow> real \<Rightarrow> real \<Rightarrow> real \<Rightarrow> bool \<Rightarrow> sa_state \<Rightarrow> sa_state" where
  "sa_body x x_mean x_std target_rate plus_flag st =
     (let st1 = (if np_greater (detect_rate st) target_rate
                 then st\<lparr>alpha_min := alpha_now st\<rparr>
                 else st\<lparr>alpha_max := alpha_now st\<rparr>);
          a = 0.5 * (alpha_min st1 + alpha_max st1)
      in st1\<lparr>alpha_now := a,
              detect_rate := comp_detect x x_mean x_std a plus_flag,
              T := T st1 + 1\<rparr>)"

text \<open>
  The loop, returning the list of the states in which its condition is evaluated: the
  state on entry first, the state the loop leaves with last.
\<close>

function sa_trace ::
  "real list \<Rightarrow> real \<Rightarrow> real \<Rightarrow> real \<Rightarrow> bool \<Rightarrow> sa_state \<Rightarrow> sa_state list" where
  "sa_trace x x_mean x_std target_rate plus_flag st =
     st # (if sa_cond target_rate st
           then sa_trace x x_mean x_std target_rate plus_flag
                  (sa_body x x_mean x_std target_rate plus_flag st)
           else [])"
  by pat_completeness auto
termination
  by (relation "measure (\<lambda>(x, x_mean, x_std, target_rate, plus_flag, st). 20 - T st)")
     (auto simp: sa_cond_def sa_body_def Let_def)

text \<open>The loop itself: the state it leaves with.\<close>

function sa_loop ::
  "real list \<Rightarrow> real \<Rightarrow> real \<Rightarrow> real \<Rightarrow> bool \<Rightarrow> sa_state \<Rightarrow> sa_state" where
  "sa_loop x x_mean x_std target_rate plus_flag st =
     (if sa_cond target_rate st
      then sa_loop x x_mean x_std target_rate plus_flag
             (sa_body x x_mean x_std target_rate plus_flag st)
      else st)"
  by pat_completeness auto
termination
  by (relation "measure (\<lambda>(x, x_mean, x_std, target_rate, plus_flag, st). 20 - T st)")
     (auto simp: sa_cond_def sa_body_def Let_def)

definition search_alpha :: "real list \<Rightarrow> real \<Rightarrow> real \<Rightarrow> real \<Rightarrow> bool \<Rightarrow> real \<times> npfloat" where
  "search_alpha x x_mean x_std target_rate plus_flag =
     (let st = sa_loop x x_mean x_std target_rate plus_flag (sa_init x x_mean x_std plus_flag)
      in (alpha_now st, detect_rate st))"

text \<open>The number of passes through the loop body that \<open>search_alpha\<close> makes.\<close>

definition search_alpha_iterations :: "real list \<Rightarrow> real \<Rightarrow> real \<Rightarrow> real \<Rightarrow> bool \<Rightarrow> nat" where
  "search_alpha_iterations x x_mean x_std target_rate plus_flag =
     length (sa_trace x x_mean x_std target_rate plus_flag (sa_init x x_mean x_std plus_flag)) - 1"

text \<open>The bounds that \<open>search_alpha\<close> keeps on its three thresholds.\<close>

definition alpha_inv :: "sa_state \<Rightarrow> bool" where
  "alpha_inv st =
     (0 \<le> alpha_min st \<and> alpha_min st \<le> alpha_now st \<and>
      alpha_now st \<le> alpha_max st \<and> alpha_max st \<le> 3)"

declare sa_trace.simps [simp del] sa_loop.simps [simp del]

section \<open>The black-box attack driver: \<open>attack_black_box.py\<close>\<close>

text \<open>
  Line 100 of the file is the closing marker of a merge conflict; it stands outside every
  function. The embedding follows the bodies of \<open>load_model\<close> and \<open>perform_attacks\<close>.
\<close>

subsection \<open>\<open>load_model\<close> (lines 17 to 99)\<close>

text \<open>The decimal digits of a number, as an f-string prints an \<open>int\<close>.\<close>

fun str_nat :: "nat \<Rightarrow> string" where
  "str_nat n =
     (if n < 10 then [''0123456789'' ! n]
      else str_nat (n div 10) @ [''0123456789'' ! (n mod 10)])"

declare str_nat.simps [simp del]

text \<open>Lines 33 to 48: the module from which the MNIST branch imports \<open>Generator\<close>.\<close>

definition mnist_Generator :: "string \<Rightarrow> error + string" where
  "mnist_Generator vae_type =
     (if vae_type = ''A'' then Inr ''models.conv_generator_mnist_A''
      else if vae_type = ''B'' then Inr ''models.conv_generator_mnist_B''
      else if vae_type = ''C'' then Inr ''models.conv_generator_mnist_C''
      else if vae_type = ''D'' then Inr ''models.conv_generator_mnist_D''
      else if vae_type = ''E'' then Inr ''models.conv_generator_mnist_E''
      else if vae_type = ''F'' then Inr ''models.conv_generator_mnist_F''
      else if vae_type = ''G'' then Inr ''models.conv_generator_mnist_G''
      else Inl (ValueError (''Unknown VAE type: '' @ vae_type)))"

text \<open>Lines 57 to 72: the same choice in the branch of CIFAR-10 and GTSRB.\<close>

definition cifar10_Generator :: "string \<Rightarrow> error + string" where
  "cifar10_Generator vae_type =
     (if vae_type = ''A'' then Inr ''models.conv_generator_cifar10_A''
      else if vae_type = ''B'' then Inr ''models.conv_generator_cifar10_B''
      else if vae_type = ''C'' then Inr ''models.conv_generator_cifar10_C''
      else if vae_type = ''D'' then Inr ''models.conv_generator_cifar10_D''
      else if vae_type = ''E'' then Inr ''models.conv_generator_cifar10_E''
      else if vae_type = ''F'' then Inr ''models.conv_generator_cifar10_F''
      else if vae_type = ''G'' then Inr ''models.conv_generator_cifar10_G''
      else Inl (ValueError (''Unknown VAE type: '' @ vae_type)))"

text \<open>
  What \<open>load_model\<close> returns: the classes it instantiates, the arguments it gives them and
  the checkpoint it loads into them. The classes themselves, \<open>load_params\<close> and the move to
  the device are not part of the file; they are taken to return.
\<close>

record loaded_model =
  lm_generator :: string
  lm_encoder :: string
  lm_input_shape :: "nat list"
  lm_n_channel :: nat
  lm_dimZ :: nat
  lm_dimH :: nat
  lm_dimY :: nat
  lm_filename :: string
  lm_checkpoint_index :: int

definition load_model :: "string \<Rightarrow> string \<Rightarrow> int \<Rightarrow> error + loaded_model" where
  "load_model data_name vae_type checkpoint_index =
     (case
        (if data_name = ''mnist'' then
           (case mnist_Generator vae_type of
              Inl e \<Rightarrow> Inl e
            | Inr g \<Rightarrow> Inr (g, ''models.conv_encoder_mnist'', [1, 28, 28], 64, 64, 500, 10))
         else if data_name = ''cifar10'' \<or> data_name = ''gtsrb'' then
           (case cifar10_Generator vae_type of
              Inl e \<Rightarrow> Inl e
            | Inr g \<Rightarrow> Inr (g, ''models.conv_encoder_cifar10'', [3, 32, 32], 128, 128, 1000, 10))
         else Inl (ValueError (''Unknown dataset: '' @ data_name)))
      of
        Inl e \<Rightarrow> Inl e
      | Inr (g, enc, input_shape, n_channel, dimZ, dimH, dimY0) \<Rightarrow>
          (let dimY = (if data_name = ''gtsrb'' then 43 else dimY0);
               path_name = data_name @ ''_conv_vae_'' @ vae_type @ ''_'' @ str_nat dimZ @ ''/'';
               filename = ''save/'' @ path_name @ ''checkpoint''
           in Inr \<lparr>lm_generator = g, lm_encoder = enc, lm_input_shape = input_shape,
                   lm_n_channel = n_channel, lm_dimZ = dimZ, lm_dimH = dimH, lm_dimY = dimY,
                   lm_filename = filename, lm_checkpoint_index = checkpoint_index\<rparr>))"

subsection \<open>\<open>perform_attacks\<close> (lines 103 to 249)\<close>

definition vae_types :: "string list" where
  "vae_types = [''A'', ''B'', ''C'', ''D'', ''E'', ''F'', ''G'']"

definition attack_methods :: "string list" where
  "attack_methods = [''SimBA'', ''Gaussian'', ''Sticker'']"

definition supported_datasets :: "string list" where
  "supported_datasets = [''mnist'', ''cifar10'', ''gtsrb'']"

text \<open>
  The dictionary \<open>accuracies\<close>: variant, then attack, then the list of accuracies. An
  association list keeps the order of insertion, as a Python dictionary does.
\<close>

type_synonym accuracies = "(string \<times> (string \<times> real list) list) list"

text \<open>
  What the function changes outside itself: the directories and files that exist (a file
  holds the dictionary dumped into it), the warnings issued, the models loaded, the attacks
  called, and the state of the tensor library (its random generators), of a type left open.
\<close>

record 'w world =
  dirs :: "string set"
  files :: "string \<Rightarrow> accuracies option"
  warnings :: "string list"
  models_loaded :: "(string \<times> string) list"
  attack_log :: "(string \<times> real) list"
  torch :: 'w

text \<open>
  What \<open>bayes_classifier\<close> is called with at lines 226 to 235, apart from the images: the
  encoder and generator loaded, the two decoder methods and the lower bound chosen for the
  variant, the likelihood, the number of classes and the number of samples.
\<close>

record classifier_args =
  ca_model :: loaded_model
  ca_dec :: "string \<times> string"
  ca_ll :: string
  ca_dimY :: nat
  ca_lowerbound :: string
  ca_K :: nat

text \<open>
  The functions of the repository and of its libraries that the file imports and that are
  not defined in it. An image is a value of a type left open; a batch is a list of images.
  \<open>load_data\<close> stands for the test half of its result. The attacks and the classifier draw
  random numbers: they take and return the state of the tensor library. The classifier
  returns one row of scores per image.
\<close>

record ('img, 'w) externals =
  load_data :: "string \<Rightarrow> error + ('img \<times> nat) list"
  sticker_attack :: "'img list \<Rightarrow> real \<Rightarrow> 'w \<Rightarrow> 'img list \<times> 'w"
  gaussian_perturbation_attack :: "'img list \<Rightarrow> real \<Rightarrow> 'w \<Rightarrow> 'img list \<times> 'w"
  bayes_classifier :: "classifier_args \<Rightarrow> 'img list \<Rightarrow> 'w \<Rightarrow> real list list \<times> 'w"

text \<open>Lines 145 to 167: the decoder methods and the lower bound of a variant.\<close>

definition select_decoder :: "string \<Rightarrow> error + ((string \<times> string) \<times> string)" where
  "select_decoder vae_type =
     (if vae_type = ''A'' then Inr ((''pyz_params'', ''pxzy_params''), ''lowerbound_A'')
      else if vae_type = ''B'' then Inr ((''pzy_params'', ''pxzy_params''), ''lowerbound_B'')
      else if vae_type = ''C'' then Inr ((''pyzx_params'', ''pxz_params''), ''lowerbound_C'')
      else if vae_type = ''D'' then Inr ((''pyzx_params'', ''pzx_params''), ''lowerbound_D'')
      else if vae_type = ''E'' then Inr ((''pyz_params'', ''pzx_params''), ''lowerbound_E'')
      else if vae_type = ''F'' then Inr ((''pyz_params'', ''pxz_params''), ''lowerbound_F'')
      else if vae_type = ''G'' then Inr ((''pzy_params'', ''pxz_params''), ''lowerbound_G'')
      else Inl (ValueError (''Unknown VAE type: '' @ vae_type)))"

text \<open>The file system, as far as lines 124 to 129 and 244 to 247 use it.\<close>

definition os_path_exists :: "'w world \<Rightarrow> string \<Rightarrow> bool" where
  "os_path_exists w p = (p \<in> dirs w \<or> files w p \<noteq> None)"

definition os_makedirs :: "string \<Rightarrow> 'w world \<Rightarrow> (error + unit) \<times> 'w world" where
  "os_makedirs p w =
     (if files w p \<noteq> None then (Inl (FileExistsError p), w)
      else (Inr (), w\<lparr>dirs := insert p (dirs w)\<rparr>))"

definition os_path_join :: "string \<Rightarrow> string \<Rightarrow> string" where
  "os_path_join a b =
     (if b \<noteq> [] \<and> hd b = CHR ''/'' then b
      else if a = [] \<or> last a = CHR ''/'' then a @ b
      else a @ ''/'' @ b)"

text \<open>
  Lines 136 to 139. \<open>Subset(test_dataset, range(10))\<close> has the ten indices 0 to 9, whatever
  the length of the dataset; reading an index the dataset does not have raises. The loader
  cuts the indices into batches of \<open>batch_size\<close>, in order, the last one shorter when
  \<open>batch_size\<close> does not divide 10.
\<close>

function chunks :: "nat \<Rightarrow> 'a list \<Rightarrow> 'a list list" where
  "chunks n xs = (if n = 0 \<or> xs = [] then [] else take n xs # chunks n (drop n xs))"
  by pat_completeness auto
termination
  by (relation "measure (\<lambda>(n, xs). length xs)") auto

declare chunks.simps [simp del]

definition test_loader :: "nat \<Rightarrow> nat list list" where
  "test_loader batch_size = chunks batch_size [0..<10]"

definition dataset_getitem :: "'a list \<Rightarrow> nat \<Rightarrow> error + 'a" where
  "dataset_getitem ds i = (if i < length ds then Inr (ds ! i) else Inl IndexError)"

fun fetch_batch :: "'a list \<Rightarrow> nat list \<Rightarrow> error + 'a list" where
  "fetch_batch ds [] = Inr []"
| "fetch_batch ds (i # is) =
     (case dataset_getitem ds i of
        Inl e \<Rightarrow> Inl e
      | Inr item \<Rightarrow> (case fetch_batch ds is of Inl e \<Rightarrow> Inl e | Inr items \<Rightarrow> Inr (item # items)))"

text \<open>
  Lines 205 to 224: the attack on one batch. The name \<open>simba\<close> is bound nowhere in the
  file: the imports of lines 12 to 14 bring \<open>bayes_classifier\<close>, \<open>construct_optimizer\<close>,
  \<open>gaussian_perturbation_attack\<close>, \<open>sticker_attack\<close>, \<open>load_data\<close>, \<open>load_model\<close> and
  \<open>load_params\<close>, and the file defines \<open>load_model\<close>, \<open>perform_attacks\<close> and \<open>plot_results\<close>.
  Reading the name raises NameError.
\<close>

definition attack_batch ::
  "('img, 'w) externals \<Rightarrow> string \<Rightarrow> 'img list \<Rightarrow> real \<Rightarrow> 'w world
   \<Rightarrow> (error + 'img list) \<times> 'w world" where
  "attack_batch X attack images epsilon w =
     (if attack = ''Sticker'' then
        (let (adv_images, t) = sticker_attack X images epsilon (torch w)
         in (Inr adv_images, w\<lparr>attack_log := attack_log w @ [(attack, epsilon)], torch := t\<rparr>))
      else if attack = ''SimBA'' then (Inl (NameError ''simba''), w)
      else if attack = ''Gaussian'' then
        (let (adv_images, t) = gaussian_perturbation_attack X images epsilon (torch w)
         in (Inr adv_images, w\<lparr>attack_log := attack_log w @ [(attack, epsilon)], torch := t\<rparr>))
      else (Inl (ValueError (''Unsupported attack: '' @ attack)), w))"

text \<open>
  \<open>torch.argmax(y_pred, dim=1)\<close>: for each row the index of its first maximal value; a row
  without entries raises.
\<close>

fun list_max :: "real \<Rightarrow> real list \<Rightarrow> real" where
  "list_max m [] = m"
| "list_max m (v # vs) = list_max (max m v) vs"

fun argmax_row :: "real list \<Rightarrow> error + nat" where
  "argmax_row [] = Inl IndexError"
| "argmax_row (v # vs) = Inr (length (takeWhile (\<lambda>u. u \<noteq> list_max v vs) (v # vs)))"

fun argmax_dim1 :: "real list list \<Rightarrow> error + nat list" where
  "argmax_dim1 [] = Inr []"
| "argmax_dim1 (r # rs) =
     (case argmax_row r of
        Inl e \<Rightarrow> Inl e
      | Inr k \<Rightarrow> (case argmax_dim1 rs of Inl e \<Rightarrow> Inl e | Inr ks \<Rightarrow> Inr (k # ks)))"

text \<open>
  Line 236: \<open>(torch.argmax(y_pred, dim=1) == labels).sum().item()\<close>. The comparison is
  elementwise; a side of length one is broadcast against the other; other lengths that
  differ raise.
\<close>

definition count_correct :: "real list list \<Rightarrow> nat list \<Rightarrow> error + nat" where
  "count_correct y_pred labels =
     (case argmax_dim1 y_pred of
        Inl e \<Rightarrow> Inl e
      | Inr preds \<Rightarrow>
          if length preds = length labels
          then Inr (length (filter (\<lambda>(p, l). p = l) (zip preds labels)))
          else if length preds = 1 then Inr (length (filter (\<lambda>l. preds ! 0 = l) labels))
          else if length labels = 1 then Inr (length (filter (\<lambda>p. p = labels ! 0) preds))
          else Inl (RuntimeError ''The size of tensor a must match the size of tensor b''))"

text \<open>Lines 198 to 237: the loop over the batches, with its two counters.\<close>

fun eval_batches ::
  "('img, 'w) externals \<Rightarrow> classifier_args \<Rightarrow> string \<Rightarrow> real \<Rightarrow> ('img \<times> nat) list
   \<Rightarrow> nat list list \<Rightarrow> nat \<Rightarrow> nat \<Rightarrow> 'w world \<Rightarrow> (error + nat \<times> nat) \<times> 'w world" where
  "eval_batches X M attack epsilon ds [] correct total_n w = (Inr (correct, total_n), w)"
| "eval_batches X M attack epsilon ds (b # bs) correct total_n w =
     (case fetch_batch ds b of
        Inl e \<Rightarrow> (Inl e, w)
      | Inr items \<Rightarrow>
          (case attack_batch X attack (map fst items) epsilon w of
             (Inl e, w1) \<Rightarrow> (Inl e, w1)
           | (Inr adv_images, w1) \<Rightarrow>
               (case bayes_classifier X M adv_images (torch w1) of
                  (y_pred, t) \<Rightarrow>
                    (case count_correct y_pred (map snd items) of
                       Inl e \<Rightarrow> (Inl e, w1\<lparr>torch := t\<rparr>)
                     | Inr c \<Rightarrow>
                         eval_batches X M attack epsilon ds bs
                           (correct + c) (total_n + length items) (w1\<lparr>torch := t\<rparr>)))))"

text \<open>Python's \<open>xs[i]\<close> for an index that is not negative.\<close>

definition py_index :: "'a list \<Rightarrow> nat \<Rightarrow> error + 'a" where
  "py_index xs i = (if i < length xs then Inr (xs ! i) else Inl IndexError)"

text \<open>Line 239: \<open>accuracies[vae_type][attack].append(v)\<close>.\<close>

definition acc_append :: "string \<Rightarrow> string \<Rightarrow> real \<Rightarrow> accuracies \<Rightarrow> error + accuracies" where
  "acc_append vae_type attack v acc =
     (case map_of acc vae_type of
        None \<Rightarrow> Inl (KeyError vae_type)
      | Some d \<Rightarrow>
          (case map_of d attack of
             None \<Rightarrow> Inl (KeyError attack)
           | Some l \<Rightarrow> Inr (AList.update vae_type (AList.update attack (l @ [v]) d) acc)))"

text \<open>Lines 190 to 239: one attack at one index, and the accuracy it appends.\<close>

definition eval_attack ::
  "('img, 'w) externals \<Rightarrow> classifier_args \<Rightarrow> string \<Rightarrow> nat \<Rightarrow> string \<Rightarrow> real list \<Rightarrow> real list
   \<Rightarrow> ('img \<times> nat) list \<Rightarrow> nat \<Rightarrow> accuracies \<Rightarrow> 'w world \<Rightarrow> (error + accuracies) \<times> 'w world" where
  "eval_attack X M vae_type i attack sticker_sizes epsilons ds batch_size acc w =
     (case (if attack = ''Sticker'' then py_index sticker_sizes i else py_index epsilons i) of
        Inl e \<Rightarrow> (Inl e, w)
      | Inr epsilon \<Rightarrow>
          (case eval_batches X M attack epsilon ds (test_loader batch_size) 0 0 w of
             (Inl e, w1) \<Rightarrow> (Inl e, w1)
           | (Inr (correct, total_n), w1) \<Rightarrow>
               if total_n = 0 then (Inl ZeroDivisionError, w1)
               else (case acc_append vae_type attack (real correct / real total_n) acc of
                       Inl e \<Rightarrow> (Inl e, w1)
                     | Inr acc1 \<Rightarrow> (Inr acc1, w1))))"

text \<open>Line 189: the loop over the attacks.\<close>

fun for_attacks ::
  "('img, 'w) externals \<Rightarrow> classifier_args \<Rightarrow> string \<Rightarrow> nat \<Rightarrow> string list \<Rightarrow> real list \<Rightarrow> real list
   \<Rightarrow> ('img \<times> nat) list \<Rightarrow> nat \<Rightarrow> accuracies \<Rightarrow> 'w world \<Rightarrow> (error + accuracies) \<times> 'w world" where
  "for_attacks X M vae_type i [] sticker_sizes epsilons ds batch_size acc w = (Inr acc, w)"
| "for_attacks X M vae_type i (attack # attacks) sticker_sizes epsilons ds batch_size acc w =
     (case eval_attack X M vae_type i attack sticker_sizes epsilons ds batch_size acc w of
        (Inl e, w1) \<Rightarrow> (Inl e, w1)
      | (Inr acc1, w1) \<Rightarrow>
          for_attacks X M vae_type i attacks sticker_sizes epsilons ds batch_size acc1 w1)"

text \<open>Line 188: the loop over the indices of the parameter lists.\<close>

fun for_indices ::
  "('img, 'w) externals \<Rightarrow> classifier_args \<Rightarrow> string \<Rightarrow> nat list \<Rightarrow> real list \<Rightarrow> real list
   \<Rightarrow> ('img \<times> nat) list \<Rightarrow> nat \<Rightarrow> accuracies \<Rightarrow> 'w world \<Rightarrow> (error + accuracies) \<times> 'w world" where
  "for_indices X M vae_type [] sticker_sizes epsilons ds batch_size acc w = (Inr acc, w)"
| "for_indices X M vae_type (i # is) sticker_sizes epsilons ds batch_size acc w =
     (case for_attacks X M vae_type i attack_methods sticker_sizes epsilons ds batch_size acc w of
        (Inl e, w1) \<Rightarrow> (Inl e, w1)
      | (Inr acc1, w1) \<Rightarrow>
          for_indices X M vae_type is sticker_sizes epsilons ds batch_size acc1 w1)"

text \<open>
  Lines 142 to 186: what one variant needs before its attacks. \<open>construct_optimizer\<close> is
  called for a result that is not used; it is taken to return.
\<close>

definition setup_variant ::
  "string \<Rightarrow> nat \<Rightarrow> string \<Rightarrow> 'w world \<Rightarrow> (error + classifier_args) \<times> 'w world" where
  "setup_variant data_name dimY vae_type w =
     (case load_model data_name vae_type 0 of
        Inl e \<Rightarrow> (Inl e, w)
      | Inr m \<Rightarrow>
          (let w1 = w\<lparr>models_loaded := models_loaded w @ [(data_name, vae_type)]\<rparr>
           in case select_decoder vae_type of
                Inl e \<Rightarrow> (Inl e, w1)
              | Inr (dec, lowerbound) \<Rightarrow>
                  (Inr \<lparr>ca_model = m, ca_dec = dec, ca_ll = ''l2'', ca_dimY = dimY,
                        ca_lowerbound = lowerbound, ca_K = 10\<rparr>, w1)))"

text \<open>Lines 141 to 242: the loop over the variants.\<close>

fun for_variants ::
  "('img, 'w) externals \<Rightarrow> string \<Rightarrow> nat \<Rightarrow> string list \<Rightarrow> real list \<Rightarrow> real list
   \<Rightarrow> ('img \<times> nat) list \<Rightarrow> nat \<Rightarrow> accuracies \<Rightarrow> 'w world \<Rightarrow> (error + accuracies) \<times> 'w world" where
  "for_variants X data_name dimY [] sticker_sizes epsilons ds batch_size acc w = (Inr acc, w)"
| "for_variants X data_name dimY (vae_type # vs) sticker_sizes epsilons ds batch_size acc w =
     (case setup_variant data_name dimY vae_type w of
        (Inl e, w1) \<Rightarrow> (Inl e, w1)
      | (Inr M, w1) \<Rightarrow>
          (case for_indices X M vae_type [0..<length sticker_sizes] sticker_sizes epsilons ds
                  batch_size (AList.update vae_type (map (\<lambda>a. (a, [])) attack_methods) acc) w1 of
             (Inl e, w2) \<Rightarrow> (Inl e, w2)
           | (Inr acc1, w2) \<Rightarrow>
               for_variants X data_name dimY vs sticker_sizes epsilons ds batch_size acc1 w2))"

text \<open>
  The function. \<open>DataLoader\<close> refuses a batch size that is not positive. The file written
  at lines 244 to 247 holds the dictionary; writing it is taken to succeed.
\<close>

definition perform_attacks ::
  "('img, 'w) externals \<Rightarrow> string \<Rightarrow> real list \<Rightarrow> real list \<Rightarrow> int \<Rightarrow> string \<Rightarrow> 'w world
   \<Rightarrow> (error + accuracies) \<times> 'w world" where
  "perform_attacks X data_name sticker_sizes epsilons batch_size save_dir w =
     (if length sticker_sizes \<noteq> length epsilons
      then (Inl (AssertionError ''Length of sticker_sizes and epsilons must be the same.''), w)
      else
        (let accuracies = map (\<lambda>vae_type. (vae_type, [])) vae_types;
             w1 = (if os_path_exists w save_dir
                   then w\<lparr>warnings := warnings w @
                          [''Results directory '' @ save_dir @
                           '' already exists and may be overwritten.'']\<rparr>
                   else w)
         in case os_makedirs save_dir w1 of
              (Inl e, w2) \<Rightarrow> (Inl e, w2)
            | (Inr u, w2) \<Rightarrow>
                (let dimY = (if data_name \<noteq> ''gtsrb'' then 10 else 43)
                 in case load_data X data_name of
                      Inl e \<Rightarrow> (Inl e, w2)
                    | Inr test_dataset \<Rightarrow>
                        if batch_size \<le> 0
                        then (Inl (ValueError ''batch_size should be a positive integer value''), w2)
                        else
                          (case for_variants X data_name dimY vae_types sticker_sizes epsilons
                                  test_dataset (nat batch_size) accuracies w2 of
                             (Inl e, w3) \<Rightarrow> (Inl e, w3)
                           | (Inr acc, w3) \<Rightarrow>
                               (Inr acc,
                                w3\<lparr>files := (files w3)
                                     (os_path_join save_dir
                                        (data_name @ ''_accuracy_vs_sticker_size.json'')
                                      \<mapsto> acc)\<rparr>)))))"

text \<open>
  For the statements about the loop of lines 198 to 237: the scores and the labels of the
  batches that the loop gets through, in order.
\<close>

fun batches_seen ::
  "('img, 'w) externals \<Rightarrow> classifier_args \<Rightarrow> string \<Rightarrow> real \<Rightarrow> ('img \<times> nat) list
   \<Rightarrow> nat list list \<Rightarrow> 'w world \<Rightarrow> (real list list \<times> nat list) list" where
  "batches_seen X M attack epsilon ds [] w = []"
| "batches_seen X M attack epsilon ds (b # bs) w =
     (case fetch_batch ds b of
        Inl e \<Rightarrow> []
      | Inr items \<Rightarrow>
          (case attack_batch X attack (map fst items) epsilon w of
             (Inl e, w1) \<Rightarrow> []
           | (Inr adv_images, w1) \<Rightarrow>
               (case bayes_classifier X M adv_images (torch w1) of
                  (y_pred, t) \<Rightarrow>
                    (case count_correct y_pred (map snd items) of
                       Inl e \<Rightarrow> []
                     | Inr c \<Rightarrow>
                         (y_pred, map snd items)
                         # batches_seen X M attack epsilon ds bs (w1\<lparr>torch := t\<rparr>)))))"

text \<open>
  The number of samples of a batch whose first maximal score stands at the index that is
  the sample's label.
\<close>

definition n_correct :: "real list list \<Rightarrow> nat list \<Rightarrow> nat" where
  "n_correct y_pred labels =
     length (filter (\<lambda>n. argmax_row (y_pred ! n) = Inr (labels ! n)) [0..<length labels])"

text \<open>An instance of the functions outside the file, of a data set and of a world.\<close>

definition example_dataset :: "(nat \<times> nat) list" where
  "example_dataset = map (\<lambda>i. (i, i mod 3)) [0..<12]"

definition example_externals :: "(nat, nat) externals" where
  "example_externals =
     \<lparr>load_data = (\<lambda>name. Inr example_dataset),
      sticker_attack = (\<lambda>images epsilon t. (images, t + 1)),
      gaussian_perturbation_attack = (\<lambda>images epsilon t. (images, t + 1)),
      bayes_classifier =
        (\<lambda>M images t. (map (\<lambda>i. if even i then [1, 0, 0] else [0, 1, 0]) images, t + 1))\<rparr>"

definition example_world :: "nat world" where
  "example_world =
     \<lparr>dirs = {}, files = (\<lambda>p. None), warnings = [], models_loaded = [], attack_log = [],
      torch = 0\<rparr>"

text \<open>The list that \<open>accuracies\<close> holds for a variant and an attack, if any.\<close>

definition acc_lookup :: "accuracies \<Rightarrow> string \<Rightarrow> string \<Rightarrow> real list option" where
  "acc_lookup acc vae_type attack =
     (case map_of acc vae_type of None \<Rightarrow> None | Some d \<Rightarrow> map_of d attack)"

text \<open>
  The arguments of the classifier for variant A on MNIST, and the dictionary when the
  attacks on variant A start.
\<close>

definition example_args :: classifier_args where
  "example_args =
     \<lparr>ca_model =
        \<lparr>lm_generator = ''models.conv_generator_mnist_A'', lm_encoder = ''models.conv_encoder_mnist'',
         lm_input_shape = [1, 28, 28], lm_n_channel = 64, lm_dimZ = 64, lm_dimH = 500,
         lm_dimY = 10, lm_filename = ''save/mnist_conv_vae_A_64/checkpoint'',
         lm_checkpoint_index = 0\<rparr>,
      ca_dec = (''pyz_params'', ''pxzy_params''), ca_ll = ''l2'', ca_dimY = 10,
      ca_lowerbound = ''lowerbound_A'', ca_K = 10\<rparr>"

definition example_accuracies :: accuracies where
  "example_accuracies = [(''A'', [(''SimBA'', []), (''Gaussian'', []), (''Sticker'', [])])]"

section \<open>The CIFAR-10 generator of variant G: \<open>models/conv_generator_cifar10_G.py\<close>\<close>

text \<open>
  A tensor or an array of two dimensions: its shape and its entries, rows first. The
  entries outside the shape are not part of the tensor.
\<close>

record array2 =
  nrows :: nat
  ncols :: nat
  entry :: "nat \<Rightarrow> nat \<Rightarrow> real"

definition shape :: "array2 \<Rightarrow> nat \<times> nat" where
  "shape a = (nrows a, ncols a)"

text \<open>
  The generator: the layers of the three module lists. The classes \<open>MLPLayer\<close> (module
  \<open>mlp\<close>) and \<open>DeconvLayer\<close> (module \<open>deconv\<close>) are not part of the file: a layer of the
  first is taken as the function its call computes, which may raise; a layer of the second
  as a value of a type left open.
\<close>

type_synonym mlp_layer = "array2 \<Rightarrow> error + array2"

record 'd Generator =
  pzy_layers :: "mlp_layer list"
  mlp_layers_pxz :: "mlp_layer list"
  conv_layers :: "'d list"

text \<open>Python's \<open>xs[-1]\<close>.\<close>

definition py_last :: "'a list \<Rightarrow> error + 'a" where
  "py_last xs = (if xs = [] then Inl IndexError else Inr (last xs))"

text \<open>Lines 24 to 31: the layers of \<open>p(z|y)\<close>.\<close>

definition build_pzy_layers ::
  "(nat \<Rightarrow> nat \<Rightarrow> string \<Rightarrow> string \<Rightarrow> mlp_layer) \<Rightarrow> nat \<Rightarrow> nat \<Rightarrow> nat \<Rightarrow> string
   \<Rightarrow> mlp_layer list" where
  "build_pzy_layers MLPLayer dimH dimZ dimY name =
     (let fc_layers_pzy = [dimY, dimH, dimZ * 2]
      in map (\<lambda>i. MLPLayer (fc_layers_pzy ! i) (fc_layers_pzy ! (i + 1))
                     (if i + 1 = length fc_layers_pzy - 1 then ''linear'' else ''relu'')
                     (name @ ''_pzy_mlp_l'' @ str_nat i))
             [0..<length fc_layers_pzy - 1])"

text \<open>Lines 35 to 41: the shapes of the decoder, the default built from the arguments.\<close>

definition default_decoder_input_shape ::
  "nat list \<Rightarrow> nat \<Rightarrow> nat list list option \<Rightarrow> error + nat list list" where
  "default_decoder_input_shape input_shape n_channel decoder_input_shape =
     (case decoder_input_shape of
        Some d \<Rightarrow> Inr d
      | None \<Rightarrow>
          if length input_shape < 3 then Inl IndexError
          else Inr [[4, 4, n_channel * 4], [8, 8, n_channel * 2], [16, 16, n_channel],
                    [input_shape ! 1, input_shape ! 2, input_shape ! 0]])"

text \<open>Lines 43 to 49: the layers of the first part of \<open>p(x|z)\<close>.\<close>

definition build_mlp_layers_pxz ::
  "(nat \<Rightarrow> nat \<Rightarrow> string \<Rightarrow> string \<Rightarrow> mlp_layer) \<Rightarrow> nat \<Rightarrow> nat \<Rightarrow> nat list \<Rightarrow> string
   \<Rightarrow> mlp_layer list" where
  "build_mlp_layers_pxz MLPLayer dimH dimZ shape0 name =
     (let fc_layers_pxz = [dimZ, dimH, prod_list shape0]
      in map (\<lambda>i. MLPLayer (fc_layers_pxz ! i) (fc_layers_pxz ! (i + 1)) ''relu''
                     (name @ ''_pxz_mlp_l'' @ str_nat i))
             [0..<length fc_layers_pxz - 1])"

text \<open>Lines 51 to 69: the deconvolution layers, one for each pair of successive shapes.\<close>

fun build_conv_layers ::
  "(nat list \<Rightarrow> nat list \<Rightarrow> nat list \<Rightarrow> string \<Rightarrow> string \<Rightarrow> 'd) \<Rightarrow> nat list list \<Rightarrow> string
   \<Rightarrow> string \<Rightarrow> nat list \<Rightarrow> error + 'd list" where
  "build_conv_layers DeconvLayer decoder_input_shape last_activation name [] = Inr []"
| "build_conv_layers DeconvLayer decoder_input_shape last_activation name (i # is) =
     (let activation =
            (if i + 1 = length decoder_input_shape - 1 then last_activation else ''relu'');
          layer_name = name @ ''_conv_l'' @ str_nat i;
          output_shape = decoder_input_shape ! (i + 1);
          input_shape = decoder_input_shape ! i
      in case py_last input_shape of
           Inl e \<Rightarrow> Inl e
         | Inr in_channels \<Rightarrow>
             (case py_last output_shape of
                Inl e \<Rightarrow> Inl e
              | Inr out_channels \<Rightarrow>
                  (case build_conv_layers DeconvLayer decoder_input_shape last_activation name is of
                     Inl e \<Rightarrow> Inl e
                   | Inr layers \<Rightarrow>
                       Inr (DeconvLayer input_shape output_shape [in_channels, out_channels, 5, 5]
                              activation layer_name
                            # layers))))"

text \<open>\<open>Generator.__init__\<close>, lines 10 to 70.\<close>

definition Generator_init ::
  "(nat \<Rightarrow> nat \<Rightarrow> string \<Rightarrow> string \<Rightarrow> mlp_layer)
   \<Rightarrow> (nat list \<Rightarrow> nat list \<Rightarrow> nat list \<Rightarrow> string \<Rightarrow> string \<Rightarrow> 'd)
   \<Rightarrow> nat list \<Rightarrow> nat \<Rightarrow> nat \<Rightarrow> nat \<Rightarrow> nat \<Rightarrow> string \<Rightarrow> string \<Rightarrow> nat list list option
   \<Rightarrow> error + 'd Generator" where
  "Generator_init MLPLayer DeconvLayer input_shape dimH dimZ dimY n_channel last_activation name
     decoder_input_shape =
     (let pzy = build_pzy_layers MLPLayer dimH dimZ dimY name
      in case default_decoder_input_shape input_shape n_channel decoder_input_shape of
           Inl e \<Rightarrow> Inl e
         | Inr dis \<Rightarrow>
             if dis = [] then Inl IndexError
             else
               (let pxz = build_mlp_layers_pxz MLPLayer dimH dimZ (dis ! 0) name
                in case build_conv_layers DeconvLayer dis last_activation name
                          [0..<length dis - 1] of
                     Inl e \<Rightarrow> Inl e
                   | Inr convs \<Rightarrow>
                       Inr \<lparr>pzy_layers = pzy, mlp_layers_pxz = pxz, conv_layers = convs\<rparr>))"

text \<open>Lines 73 to 75: the input through the layers, in order.\<close>

fun apply_layers :: "mlp_layer list \<Rightarrow> array2 \<Rightarrow> error + array2" where
  "apply_layers [] out = Inr out"
| "apply_layers (layer # layers) out =
     (case layer out of Inl e \<Rightarrow> Inl e | Inr out1 \<Rightarrow> apply_layers layers out1)"

text \<open>The columns \<open>lo\<close> up to \<open>hi\<close> of an array.\<close>

definition columns :: "array2 \<Rightarrow> nat \<Rightarrow> nat \<Rightarrow> array2" where
  "columns a lo hi = \<lparr>nrows = nrows a, ncols = hi - lo, entry = (\<lambda>i j. entry a i (j + lo))\<rparr>"

text \<open>
  \<open>torch.chunk(out, 2, dim=1)\<close>: pieces of \<open>ceil(W / 2)\<close> columns for a width \<open>W\<close>, the last
  one with what is left; one piece only for a width of one, two empty pieces for a width
  of zero.
\<close>

definition torch_chunk2 :: "array2 \<Rightarrow> array2 list" where
  "torch_chunk2 out =
     (let W = ncols out; split_size = (W + 1) div 2
      in if W = 0 then [out, out]
         else map (\<lambda>k. columns out (k * split_size) (min W ((k + 1) * split_size)))
                  [0..<(W + split_size - 1) div split_size])"

text \<open>\<open>Generator.pzy_params\<close>, lines 72 to 77. Unpacking into two names needs two pieces.\<close>

definition pzy_params :: "'d Generator \<Rightarrow> array2 \<Rightarrow> error + (array2 \<times> array2)" where
  "pzy_params self y =
     (case apply_layers (pzy_layers self) y of
        Inl e \<Rightarrow> Inl e
      | Inr out \<Rightarrow>
          (case torch_chunk2 out of
             [mu, log_sig] \<Rightarrow> Inr (mu, log_sig)
           | _ \<Rightarrow> Inl (ValueError ''not enough values to unpack (expected 2, got 1)'')))"

text \<open>
  An instance of \<open>MLPLayer\<close> for the examples: each output is the sum of the inputs of its
  row plus the index of its column; an input of another width raises.
\<close>

definition example_MLPLayer :: "nat \<Rightarrow> nat \<Rightarrow> string \<Rightarrow> string \<Rightarrow> mlp_layer" where
  "example_MLPLayer d_in d_out activation name x =
     (if ncols x = d_in
      then Inr \<lparr>nrows = nrows x, ncols = d_out,
                entry = (\<lambda>i j. sum_list (map (entry x i) [0..<d_in]) + real j)\<rparr>
      else Inl (RuntimeError ''mat1 and mat2 shapes cannot be multiplied''))"

definition example_DeconvLayer :: "nat list \<Rightarrow> nat list \<Rightarrow> nat list \<Rightarrow> string \<Rightarrow> string \<Rightarrow> string" where
  "example_DeconvLayer input_shape output_shape filter_shape activation name = name"

definition example_y :: array2 where
  "example_y = \<lparr>nrows = 2, ncols = 10, entry = (\<lambda>i j. if j = i then 1 else 0)\<rparr>"

section \<open>Log-probability statistics: \<open>comp_logp\<close> of \<open>attacks/detect_attacks_logp_v2.py\<close>\<close>

text \<open>
  What \<open>comp_logp\<close> puts into its result list: a float, an array of floats, a Python list
  of floats, a Python list of arrays.
\<close>

datatype np_value =
    Float npfloat
  | Array "npfloat list"
  | FloatList "npfloat list"
  | ArrayList "npfloat list list"

text \<open>\<open>np.var\<close> (the mean of the squared deviations from the mean) and \<open>np.sqrt\<close>.\<close>

definition np_var :: "real list \<Rightarrow> npfloat" where
  "np_var xs =
     (if xs = [] then NaN
      else (let m = sum_list xs / real (length xs)
            in Num (sum_list (map (\<lambda>v. (v - m)\<^sup>2) xs) / real (length xs))))"

fun np_sqrt :: "npfloat \<Rightarrow> npfloat" where
  "np_sqrt (Num a) = Num (sqrt a)"
| "np_sqrt NaN = NaN"

text \<open>
  The logarithm of the sum of the exponentials of each row: what the function named
  \<open>logsumexp\<close> of \<open>scipy.special\<close> computes along axis 1.
\<close>

definition logsumexp_axis1 :: "array2 \<Rightarrow> real list" where
  "logsumexp_axis1 a =
     map (\<lambda>n. ln (sum_list (map (\<lambda>k. exp (entry a n k)) [0..<ncols a]))) [0..<nrows a]"

text \<open>
  Line 24 reads the attribute \<open>logsumexp\<close> of the module \<open>numpy\<close> (imported as \<open>np\<close> at
  line 7). NumPy has \<open>logaddexp\<close> and \<open>logaddexp2\<close> and no \<open>logsumexp\<close>: reading the
  attribute raises AttributeError.
\<close>

definition np_logsumexp :: "error + (array2 \<Rightarrow> real list)" where
  "np_logsumexp = Inl (AttributeError ''module numpy has no attribute logsumexp'')"

text \<open>\<open>np.where(y[:, i] == 1)[0]\<close>: the rows of \<open>y\<close> with a one in column \<open>i\<close>.\<close>

definition np_where_col :: "array2 \<Rightarrow> nat \<Rightarrow> nat list" where
  "np_where_col y i = filter (\<lambda>n. entry y n i = 1) [0..<nrows y]"

text \<open>Lines 32 to 40: mean and deviation of \<open>logpxy\<close> over the samples of each class.\<close>

definition class_stats :: "array2 \<Rightarrow> real list \<Rightarrow> (npfloat \<times> npfloat) list" where
  "class_stats y logpxy =
     map (\<lambda>i. let ind = np_where_col y i
               in if length ind > 0
                  then (np_mean (map ((!) logpxy) ind), np_sqrt (np_var (map ((!) logpxy) ind)))
                  else (NaN, NaN))
         [0..<ncols y]"

text \<open>
  Lines 56 to 102, for one class: the mean and the deviation of the logits over the
  samples of the class, the mean and the deviation of the divergences, the mean softmax.
\<close>

definition logit_dist_class ::
  "(array2 \<Rightarrow> real list) \<Rightarrow> array2 \<Rightarrow> array2 \<Rightarrow> nat
   \<Rightarrow> npfloat list \<times> npfloat list \<times> npfloat \<times> npfloat \<times> npfloat list" where
  "logit_dist_class lse logit y i =
     (let nb_classes = ncols y; ind = np_where_col y i
      in if length ind > 0 then
           (let logit_class = \<lparr>nrows = length ind, ncols = ncols logit,
                                entry = (\<lambda>s k. entry logit (ind ! s) k)\<rparr>;
                cols = [0..<ncols logit];
                samples = [0..<length ind];
                logit_mean = map (\<lambda>k. np_mean (map (\<lambda>s. entry logit_class s k) samples)) cols;
                logit_std =
                  map (\<lambda>k. np_sqrt (np_var (map (\<lambda>s. entry logit_class s k) samples))) cols;
                norm = lse logit_class;
                logit_tmp = (\<lambda>s k. entry logit_class s k - norm ! s);
                softmax_mean =
                  map (\<lambda>k. sum_list (map (\<lambda>s. exp (logit_tmp s k)) samples) / real (length ind))
                      cols;
                kl_vals =
                  map (\<lambda>s. sum_list (map (\<lambda>k. softmax_mean ! k *
                                              (ln (softmax_mean ! k) - logit_tmp s k)) cols))
                      samples
            in (logit_mean, logit_std, np_mean kl_vals, np_sqrt (np_var kl_vals),
                map Num softmax_mean))
         else (replicate nb_classes NaN, replicate nb_classes NaN, NaN, NaN,
               replicate nb_classes NaN))"

text \<open>
  The body of \<open>comp_logp\<close>, lines 24 to 106, for a given result of reading \<open>np.logsumexp\<close>.
  The product \<open>y * logit\<close> is taken for arrays of one shape; arrays of two shapes raise
  (NumPy's broadcasting of an axis of length one is left out). The line printed is not
  modelled.
\<close>

definition comp_logp_with ::
  "error + (array2 \<Rightarrow> real list) \<Rightarrow> array2 \<Rightarrow> array2 \<Rightarrow> string \<Rightarrow> bool \<Rightarrow> error + np_value list" where
  "comp_logp_with lookup logit y text comp_logit_dist =
     (case lookup of
        Inl e \<Rightarrow> Inl e
      | Inr lse \<Rightarrow>
          (let logpx = lse logit;
               logpx_mean = np_mean logpx;
               logpx_std = np_sqrt (np_var logpx)
           in if shape y \<noteq> shape logit
              then Inl (ValueError ''operands could not be broadcast together'')
              else
                (let logpxy = map (\<lambda>n. sum_list (map (\<lambda>k. entry y n k * entry logit n k)
                                                      [0..<ncols logit]))
                                  [0..<nrows logit];
                     stats = class_stats y logpxy;
                     logpxy_mean = map fst stats;
                     logpxy_std = map snd stats;
                     results = [Array (map Num logpx), Float logpx_mean, Float logpx_std,
                                Array (map Num logpxy), FloatList logpxy_mean,
                                FloatList logpxy_std]
                 in if comp_logit_dist
                    then (let d = map (logit_dist_class lse logit y) [0..<ncols y]
                          in Inr (results @
                                  [ArrayList (map (\<lambda>(m, s, km, ks, sm). m) d),
                                   ArrayList (map (\<lambda>(m, s, km, ks, sm). s) d),
                                   FloatList (map (\<lambda>(m, s, km, ks, sm). km) d),
                                   FloatList (map (\<lambda>(m, s, km, ks, sm). ks) d),
                                   ArrayList (map (\<lambda>(m, s, km, ks, sm). sm) d)]))
                    else Inr results)))"

text \<open>\<open>comp_logp\<close>, lines 10 to 106, as the file has it.\<close>

definition comp_logp :: "array2 \<Rightarrow> array2 \<Rightarrow> string \<Rightarrow> bool \<Rightarrow> error + np_value list" where
  "comp_logp logit y text comp_logit_dist = comp_logp_with np_logsumexp logit y text comp_logit_dist"

text \<open>Logits and one-hot labels of two samples and two classes.\<close>

definition example_logit :: array2 where
  "example_logit = \<lparr>nrows = 2, ncols = 2, entry = (\<lambda>n k. if n = k then 2 else 1)\<rparr>"

definition example_onehot :: array2 where
  "example_onehot = \<lparr>nrows = 2, ncols = 2, entry = (\<lambda>n k. if n = k then 1 else 0)\<rparr>"

section \<open>Properties of \<open>comp_detect\<close> and \<open>search_alpha\<close>\<close>

lemma sa_body_T: "T (sa_body x m s t p st) = T st + 1"
  by (simp add: sa_body_def Let_def)

lemma sa_trace_not_Nil: "sa_trace x m s t p st \<noteq> []"
  by (subst sa_trace.simps) simp

lemma sa_trace_last: "last (sa_trace x m s t p st) = sa_loop x m s t p st"
proof (induction x m s t p st rule: sa_trace.induct)
  case (1 x m s t p st)
  show ?case
  proof (cases "sa_cond t st")
    case True
    with 1 sa_trace_not_Nil show ?thesis
      by (subst sa_trace.simps, subst sa_loop.simps) simp
  next
    case False
    then show ?thesis by (subst sa_trace.simps, subst sa_loop.simps) simp
  qed
qed

lemma sa_trace_length: "T st \<le> 20 \<Longrightarrow> length (sa_trace x m s t p st) + T st \<le> 21"
proof (induction x m s t p st rule: sa_trace.induct)
  case (1 x m s t p st)
  show ?case
  proof (cases "sa_cond t st")
    case True
    then have "T st < 20" by (simp add: sa_cond_def)
    then have "T (sa_body x m s t p st) \<le> 20" by (simp add: sa_body_T)
    with 1 True have
      "length (sa_trace x m s t p (sa_body x m s t p st)) + T (sa_body x m s t p st) \<le> 21"
      by blast
    with True show ?thesis
      by (subst sa_trace.simps) (simp add: sa_body_T)
  next
    case False
    with 1 show ?thesis by (subst sa_trace.simps) simp
  qed
qed

lemma sa_body_rate:
  "detect_rate (sa_body x m s t p st) = comp_detect x m s (alpha_now (sa_body x m s t p st)) p"
  by (simp add: sa_body_def Let_def)

lemma sa_loop_rate:
  "detect_rate st = comp_detect x m s (alpha_now st) p \<Longrightarrow>
   detect_rate (sa_loop x m s t p st) = comp_detect x m s (alpha_now (sa_loop x m s t p st)) p"
proof (induction x m s t p st rule: sa_loop.induct)
  case (1 x m s t p st)
  show ?case
  proof (cases "sa_cond t st")
    case True
    with 1 sa_body_rate show ?thesis by (subst (1 2) sa_loop.simps) simp
  next
    case False
    with 1 show ?thesis by (subst (1 2) sa_loop.simps) simp
  qed
qed

lemma alpha_inv_init: "alpha_inv (sa_init x m s p)"
  by (simp add: alpha_inv_def sa_init_def)

lemma alpha_inv_body: "alpha_inv st \<Longrightarrow> alpha_inv (sa_body x m s t p st)"
  by (auto simp: alpha_inv_def sa_body_def Let_def)

lemma alpha_inv_trace:
  "alpha_inv st \<Longrightarrow> st' \<in> set (sa_trace x m s t p st) \<Longrightarrow> alpha_inv st'"
proof (induction x m s t p st rule: sa_trace.induct)
  case (1 x m s t p st)
  from "1.prems"(2) have
    "st' = st \<or> (sa_cond t st \<and> st' \<in> set (sa_trace x m s t p (sa_body x m s t p st)))"
    by (subst (asm) sa_trace.simps) (auto split: if_splits)
  then show ?case
  proof
    assume "st' = st"
    with "1.prems"(1) show ?thesis by simp
  next
    assume "sa_cond t st \<and> st' \<in> set (sa_trace x m s t p (sa_body x m s t p st))"
    with "1.IH" alpha_inv_body[OF "1.prems"(1)] show ?thesis by blast
  qed
qed

text \<open>
  Claim C3. \<open>search_alpha\<close> is a total function: for every array, mean, deviation, target
  rate and flag it returns after at most 20 passes through the loop body, and the rate it
  returns is \<open>comp_detect\<close> at the threshold it returns.
\<close>

theorem search_alpha_terminates:
  "search_alpha_iterations x x_mean x_std target_rate plus_flag \<le> 20 \<and>
   snd (search_alpha x x_mean x_std target_rate plus_flag) =
     comp_detect x x_mean x_std (fst (search_alpha x x_mean x_std target_rate plus_flag)) plus_flag"
proof -
  have "T (sa_init x x_mean x_std plus_flag) = 0" by (simp add: sa_init_def)
  then have "length (sa_trace x x_mean x_std target_rate plus_flag
                       (sa_init x x_mean x_std plus_flag)) \<le> 21"
    using sa_trace_length[of "sa_init x x_mean x_std plus_flag" x x_mean x_std target_rate plus_flag]
    by simp
  then have a: "search_alpha_iterations x x_mean x_std target_rate plus_flag \<le> 20"
    by (simp add: search_alpha_iterations_def)
  have "detect_rate (sa_init x x_mean x_std plus_flag) =
        comp_detect x x_mean x_std (alpha_now (sa_init x x_mean x_std plus_flag)) plus_flag"
    by (simp add: sa_init_def)
  then have b: "snd (search_alpha x x_mean x_std target_rate plus_flag) =
     comp_detect x x_mean x_std (fst (search_alpha x x_mean x_std target_rate plus_flag)) plus_flag"
    using sa_loop_rate by (simp add: search_alpha_def Let_def)
  from a b show ?thesis by simp
qed

text \<open>
  Claim C5. In every state in which the loop of \<open>search_alpha\<close> evaluates its condition,
  \<open>0 \<le> alpha_min \<le> alpha_now \<le> alpha_max \<le> 3\<close>; hence the threshold returned lies in
  the closed interval from 0 to 3.
\<close>

theorem search_alpha_bounds:
  "(\<forall>st \<in> set (sa_trace x x_mean x_std target_rate plus_flag (sa_init x x_mean x_std plus_flag)).
      0 \<le> alpha_min st \<and> alpha_min st \<le> alpha_now st \<and>
      alpha_now st \<le> alpha_max st \<and> alpha_max st \<le> 3) \<and>
   0 \<le> fst (search_alpha x x_mean x_std target_rate plus_flag) \<and>
   fst (search_alpha x x_mean x_std target_rate plus_flag) \<le> 3"
proof -
  let ?tr = "sa_trace x x_mean x_std target_rate plus_flag (sa_init x x_mean x_std plus_flag)"
  have all: "\<forall>st \<in> set ?tr. alpha_inv st"
    using alpha_inv_trace[OF alpha_inv_init] by blast
  have "last ?tr \<in> set ?tr" using sa_trace_not_Nil by simp
  with all have "alpha_inv (last ?tr)" by blast
  then have "alpha_inv (sa_loop x x_mean x_std target_rate plus_flag
                          (sa_init x x_mean x_std plus_flag))"
    by (simp add: sa_trace_last)
  then have "0 \<le> fst (search_alpha x x_mean x_std target_rate plus_flag) \<and>
             fst (search_alpha x x_mean x_std target_rate plus_flag) \<le> 3"
    by (simp add: search_alpha_def Let_def alpha_inv_def)
  with all show ?thesis by (simp add: alpha_inv_def)
qed

theorem search_alpha_bounds_witness:
  "sa_body [1, 2, 3, 4] 2.5 1 5 False (sa_init [1, 2, 3, 4] 2.5 1 False)
     \<in> set (sa_trace [1, 2, 3, 4] 2.5 1 5 False (sa_init [1, 2, 3, 4] 2.5 1 False)) \<and>
   alpha_inv (sa_body [1, 2, 3, 4] 2.5 1 5 False (sa_init [1, 2, 3, 4] 2.5 1 False)) \<and>
   alpha_now (sa_body [1, 2, 3, 4] 2.5 1 5 False (sa_init [1, 2, 3, 4] 2.5 1 False)) = 3 / 4"
proof -
  let ?i = "sa_init [1, 2, 3, 4] 2.5 1 False"
  let ?b = "sa_body [1, 2, 3, 4] 2.5 1 5 False ?i"
  have r: "detect_rate ?i = Num 0"
    by (simp add: sa_init_def comp_detect_def np_mean_bool_def np_mean_def)
  have c: "sa_cond 5 ?i" using r by (simp add: sa_cond_def) (simp add: sa_init_def)
  have m: "?b \<in> set (sa_trace [1, 2, 3, 4] 2.5 1 5 False ?i)"
    using c sa_trace_not_Nil[of "[1, 2, 3, 4]" "2.5" 1 5 False ?b]
    by (subst sa_trace.simps) (simp, subst sa_trace.simps, simp)
  have n: "alpha_now ?b = 3 / 4"
    using r by (simp add: sa_body_def Let_def) (simp add: sa_init_def)
  from m search_alpha_bounds[of "[1, 2, 3, 4]" "2.5" 1 5 False]
  have "alpha_inv ?b" unfolding alpha_inv_def by blast
  with m n show ?thesis by simp
qed

lemma sum_indicator_bounds:
  "0 \<le> sum_list (map (\<lambda>b. if b then 1 else 0::real) bs) \<and>
   sum_list (map (\<lambda>b. if b then 1 else 0::real) bs) \<le> real (length bs)"
  by (induction bs) auto

lemma np_mean_bool_range:
  assumes "bs \<noteq> []"
  shows "\<exists>r. np_mean_bool bs = Num r \<and> 0 \<le> r \<and> r \<le> 1"
proof -
  let ?c = "sum_list (map (\<lambda>b. if b then 1 else 0::real) bs)"
  have b: "0 \<le> ?c \<and> ?c \<le> real (length bs)" by (rule sum_indicator_bounds)
  have n: "0 < real (length bs)" using assms by simp
  from b n have "0 \<le> ?c / real (length bs)" by simp
  moreover from b n have "?c / real (length bs) \<le> 1" by (simp add: divide_le_eq)
  moreover have "np_mean_bool bs = Num (?c / real (length bs))"
    using assms by (simp add: np_mean_bool_def np_mean_def)
  ultimately show ?thesis by blast
qed

lemma sum_indicator_mono:
  "(\<And>v. v \<in> set x \<Longrightarrow> P v \<Longrightarrow> Q v) \<Longrightarrow>
   sum_list (map (\<lambda>b. if b then 1 else 0::real) (map P x)) \<le>
   sum_list (map (\<lambda>b. if b then 1 else 0::real) (map Q x))"
  by (induction x) auto

lemma np_mean_bool_mono:
  assumes "x \<noteq> []" and imp: "\<And>v. v \<in> set x \<Longrightarrow> P v \<Longrightarrow> Q v"
  shows "\<exists>r r'. np_mean_bool (map P x) = Num r \<and> np_mean_bool (map Q x) = Num r' \<and> r \<le> r'"
proof -
  let ?f = "\<lambda>b. if b then 1 else 0::real"
  have "sum_list (map ?f (map P x)) \<le> sum_list (map ?f (map Q x))"
    using imp by (rule sum_indicator_mono)
  then have "sum_list (map ?f (map P x)) / real (length x)
             \<le> sum_list (map ?f (map Q x)) / real (length x)"
    by (simp add: divide_right_mono)
  moreover have "np_mean_bool (map P x) = Num (sum_list (map ?f (map P x)) / real (length x))"
    using assms(1) unfolding np_mean_bool_def np_mean_def by simp
  moreover have "np_mean_bool (map Q x) = Num (sum_list (map ?f (map Q x)) / real (length x))"
    using assms(1) unfolding np_mean_bool_def np_mean_def by simp
  ultimately show ?thesis by blast
qed

lemma threshold_mono:
  fixes x_std :: real
  assumes "0 \<le> x_std" "alpha \<le> alpha'"
  shows "x_mean + alpha * x_std \<le> x_mean + alpha' * x_std"
    and "x_mean - alpha' * x_std \<le> x_mean - alpha * x_std"
  using assms by (simp_all add: mult_right_mono)

lemma comp_detect_range:
  assumes "x \<noteq> []"
  shows "in_percent_range (comp_detect x m s a p)"
proof (cases p)
  case True
  from assms obtain r where
    "np_mean_bool (map (\<lambda>v. v > m + a * s) x) = Num r" "0 \<le> r" "r \<le> 1"
    using np_mean_bool_range[of "map (\<lambda>v. v > m + a * s) x"] by auto
  with True show ?thesis by (simp add: comp_detect_def)
next
  case False
  from assms obtain r where
    "np_mean_bool (map (\<lambda>v. v < m - a * s) x) = Num r" "0 \<le> r" "r \<le> 1"
    using np_mean_bool_range[of "map (\<lambda>v. v < m - a * s) x"] by auto
  with False show ?thesis by (simp add: comp_detect_def)
qed

lemma comp_detect_mono:
  assumes "x \<noteq> []" "0 \<le> s" "a \<le> a'"
  shows "np_le (comp_detect x m s a' p) (comp_detect x m s a p)"
proof (cases p)
  case True
  have "\<And>v. v > m + a' * s \<Longrightarrow> v > m + a * s"
    using threshold_mono(1)[OF assms(2,3), of m] by simp
  then obtain r r' where "np_mean_bool (map (\<lambda>v. v > m + a' * s) x) = Num r"
     "np_mean_bool (map (\<lambda>v. v > m + a * s) x) = Num r'" "r \<le> r'"
    using np_mean_bool_mono[OF assms(1), of "\<lambda>v. v > m + a' * s" "\<lambda>v. v > m + a * s"]
    by blast
  with True show ?thesis by (simp add: comp_detect_def)
next
  case False
  have "\<And>v. v < m - a' * s \<Longrightarrow> v < m - a * s"
    using threshold_mono(2)[OF assms(2,3), of m] by simp
  then obtain r r' where "np_mean_bool (map (\<lambda>v. v < m - a' * s) x) = Num r"
     "np_mean_bool (map (\<lambda>v. v < m - a * s) x) = Num r'" "r \<le> r'"
    using np_mean_bool_mono[OF assms(1), of "\<lambda>v. v < m - a' * s" "\<lambda>v. v < m - a * s"]
    by blast
  with False show ?thesis by (simp add: comp_detect_def)
qed

text \<open>
  Claim C4, as the code has it. For every non-empty array \<open>x\<close>, every \<open>x_mean\<close>, every
  \<open>x_std \<ge> 0\<close> and both values of the flag, \<open>comp_detect\<close> does not increase when
  \<open>alpha\<close> increases, and its value lies between 0 and 100.
\<close>

theorem comp_detect_antitone_bounded:
  assumes "x \<noteq> []" and "0 \<le> x_std" and "alpha \<le> alpha'"
  shows "np_le (comp_detect x x_mean x_std alpha' plus_flag)
               (comp_detect x x_mean x_std alpha plus_flag) \<and>
         in_percent_range (comp_detect x x_mean x_std alpha plus_flag)"
  using comp_detect_mono[OF assms] comp_detect_range[OF assms(1)] by simp

theorem comp_detect_antitone_bounded_witness:
  "[1, 2, 3, 4] \<noteq> ([] :: real list) \<and> (0::real) \<le> 1 \<and> (0::real) \<le> 1 \<and>
   comp_detect [1, 2, 3, 4] 2.5 1 1 False = Num 25 \<and>
   comp_detect [1, 2, 3, 4] 2.5 1 0 False = Num 50 \<and>
   np_le (comp_detect [1, 2, 3, 4] 2.5 1 1 False) (comp_detect [1, 2, 3, 4] 2.5 1 0 False) \<and>
   in_percent_range (comp_detect [1, 2, 3, 4] 2.5 1 0 False)"
proof -
  have h1: "[1, 2, 3, 4] \<noteq> ([] :: real list)" by simp
  have h2: "(0::real) \<le> 1" by simp
  have v1: "comp_detect [1, 2, 3, 4] 2.5 1 1 False = Num 25"
    by (simp add: comp_detect_def np_mean_bool_def np_mean_def)
  have v2: "comp_detect [1, 2, 3, 4] 2.5 1 0 False = Num 50"
    by (simp add: comp_detect_def np_mean_bool_def np_mean_def)
  from comp_detect_antitone_bounded[OF h1 h2 h2, of "2.5" False] h1 h2 v1 v2
  show ?thesis by simp
qed

text \<open>
  The claim as stated, for every array, fails on the empty array: the mean of no
  elements is NaN, which lies in no interval and is not below or equal to itself.
\<close>

theorem comp_detect_empty_counterexample:
  "\<not> in_percent_range (comp_detect [] 0 1 0 False) \<and>
   \<not> np_le (comp_detect [] 0 1 1 False) (comp_detect [] 0 1 0 False)"
  by (simp add: comp_detect_def np_mean_bool_def np_mean_def)

section \<open>Properties of \<open>load_model\<close> and \<open>perform_attacks\<close>\<close>

lemma chunks_concat: "0 < n \<Longrightarrow> concat (chunks n xs) = xs"
proof (induction n xs rule: chunks.induct)
  case (1 n xs)
  then show ?case by (subst chunks.simps) auto
qed

lemma chunks_not_Nil: "0 < n \<Longrightarrow> xs \<noteq> [] \<Longrightarrow> chunks n xs \<noteq> []"
  by (subst chunks.simps) simp

lemma chunks_zero: "chunks 0 xs = []"
  by (subst chunks.simps) simp

lemma test_loader_concat: "0 < n \<Longrightarrow> concat (test_loader n) = [0..<10]"
  by (simp add: test_loader_def chunks_concat)

lemma test_loader_not_Nil: "0 < n \<Longrightarrow> test_loader n \<noteq> []"
  by (simp add: test_loader_def chunks_not_Nil)

lemma test_loader_zero: "test_loader 0 = []"
  by (simp add: test_loader_def chunks_zero)

lemma fetch_batch_Inr:
  "fetch_batch ds b = Inr items \<Longrightarrow> items = map ((!) ds) b \<and> (\<forall>i \<in> set b. i < length ds)"
  by (induction b arbitrary: items)
     (auto simp: dataset_getitem_def split: sum.splits if_splits)

lemma attack_batch_SimBA: "attack_batch X ''SimBA'' images epsilon w = (Inl (NameError ''simba''), w)"
  by (simp add: attack_batch_def)

lemma eval_batches_SimBA:
  "bs \<noteq> [] \<Longrightarrow> \<exists>e. eval_batches X M ''SimBA'' epsilon ds bs c t w = (Inl e, w)"
  by (cases bs) (auto simp: attack_batch_SimBA split: sum.splits)

lemma eval_batches_Cons_Inr:
  assumes "eval_batches X M attack epsilon ds (b # bs) c t w = (Inr r, w')"
  obtains items adv_images w1 y_pred tt k where
    "fetch_batch ds b = Inr items"
    "attack_batch X attack (map fst items) epsilon w = (Inr adv_images, w1)"
    "bayes_classifier X M adv_images (torch w1) = (y_pred, tt)"
    "count_correct y_pred (map snd items) = Inr k"
    "eval_batches X M attack epsilon ds bs (c + k) (t + length items) (w1\<lparr>torch := tt\<rparr>) = (Inr r, w')"
  using assms by (auto split: sum.splits prod.splits)

lemma attack_batch_length:
  assumes "\<And>images e t. length (fst (sticker_attack X images e t)) = length images"
      and "\<And>images e t. length (fst (gaussian_perturbation_attack X images e t)) = length images"
      and "attack_batch X attack images epsilon w = (Inr adv_images, w1)"
  shows "length adv_images = length images"
proof -
  have s: "\<And>a t. sticker_attack X images epsilon (torch w) = (a, t) \<Longrightarrow> length a = length images"
    using assms(1)[of images epsilon "torch w"] by simp
  have g: "\<And>a t. gaussian_perturbation_attack X images epsilon (torch w) = (a, t) \<Longrightarrow> length a = length images"
    using assms(2)[of images epsilon "torch w"] by simp
  from assms(3) s g show ?thesis
    by (auto simp: attack_batch_def split: if_splits prod.splits)
qed

lemma argmax_dim1_Inr:
  "argmax_dim1 rows = Inr preds \<Longrightarrow>
   length preds = length rows \<and> (\<forall>n < length rows. argmax_row (rows ! n) = Inr (preds ! n))"
proof (induction rows arbitrary: preds)
  case Nil
  then show ?case by simp
next
  case (Cons r rows)
  then show ?case
    by (auto split: sum.splits simp: nth_Cons split: nat.splits)
qed

lemma zip_as_map: "length xs = length ys \<Longrightarrow> zip xs ys = map (\<lambda>n. (xs ! n, ys ! n)) [0..<length ys]"
  by (rule nth_equalityI) auto

lemma count_correct_n_correct:
  assumes "length y_pred = length labels" and "count_correct y_pred labels = Inr c"
  shows "c = n_correct y_pred labels"
proof -
  from assms(2) obtain preds where p: "argmax_dim1 y_pred = Inr preds"
    by (auto simp: count_correct_def split: sum.splits)
  from argmax_dim1_Inr[OF p] assms(1) have l: "length preds = length labels"
    and a: "\<forall>n < length labels. argmax_row (y_pred ! n) = Inr (preds ! n)" by auto
  from assms(2) p l have "c = length (filter (\<lambda>(p, l). p = l) (zip preds labels))"
    by (simp add: count_correct_def)
  also have "\<dots> = length (filter (\<lambda>n. preds ! n = labels ! n) [0..<length labels])"
    using l by (simp add: zip_as_map filter_map comp_def)
  also have "\<dots> = length (filter (\<lambda>n. argmax_row (y_pred ! n) = Inr (labels ! n)) [0..<length labels])"
    using a by (intro arg_cong[where f=length] filter_cong) auto
  finally show ?thesis by (simp add: n_correct_def)
qed

lemma n_correct_le: "n_correct y_pred labels \<le> length labels"
  unfolding n_correct_def using length_filter_le[of _ "[0..<length labels]"] by simp

lemma eval_batches_counts:
  assumes rows: "\<And>images t. length (fst (bayes_classifier X M images t)) = length images"
      and st: "\<And>images e t. length (fst (sticker_attack X images e t)) = length images"
      and ga: "\<And>images e t. length (fst (gaussian_perturbation_attack X images e t)) = length images"
  shows "eval_batches X M attack epsilon ds bs c t w = (Inr (c', t'), w') \<Longrightarrow>
     c' = c + sum_list (map (\<lambda>(y_pred, labels). n_correct y_pred labels)
                         (batches_seen X M attack epsilon ds bs w)) \<and>
     t' = t + sum_list (map (\<lambda>(y_pred, labels). length labels)
                         (batches_seen X M attack epsilon ds bs w)) \<and>
     t' = t + length (concat bs)"
proof (induction bs arbitrary: c t w)
  case Nil
  then show ?case by simp
next
  case (Cons b bs)
  from Cons.prems obtain items adv_images w1 y_pred tt k where
    f: "fetch_batch ds b = Inr items" and
    a: "attack_batch X attack (map fst items) epsilon w = (Inr adv_images, w1)" and
    y: "bayes_classifier X M adv_images (torch w1) = (y_pred, tt)" and
    k: "count_correct y_pred (map snd items) = Inr k" and
    r: "eval_batches X M attack epsilon ds bs (c + k) (t + length items) (w1\<lparr>torch := tt\<rparr>) = (Inr (c', t'), w')"
    by (rule eval_batches_Cons_Inr)
  from attack_batch_length[OF st ga a] have "length adv_images = length items" by simp
  moreover from rows[of adv_images "torch w1"] y have "length y_pred = length adv_images" by simp
  ultimately have "length y_pred = length (map snd items)" by simp
  from count_correct_n_correct[OF this k] have kk: "k = n_correct y_pred (map snd items)" .
  from fetch_batch_Inr[OF f] have li: "length items = length b" by simp
  from Cons.IH[OF r] f a y k kk li show ?case by simp
qed

lemma eval_attack_SimBA:
  "0 < batch_size \<Longrightarrow>
   \<exists>e. eval_attack X M vae_type i ''SimBA'' sticker_sizes epsilons ds batch_size acc w = (Inl e, w)"
proof -
  assume "0 < batch_size"
  then have ne: "test_loader batch_size \<noteq> []" by (rule test_loader_not_Nil)
  show ?thesis
  proof (cases "py_index epsilons i")
    case (Inl e)
    then show ?thesis by (simp add: eval_attack_def)
  next
    case (Inr epsilon)
    from eval_batches_SimBA[OF ne, of X M epsilon ds 0 0 w] obtain e where
      "eval_batches X M ''SimBA'' epsilon ds (test_loader batch_size) 0 0 w = (Inl e, w)" by blast
    with Inr show ?thesis by (simp add: eval_attack_def)
  qed
qed

lemma for_indices_SimBA:
  "0 < batch_size \<Longrightarrow> is \<noteq> [] \<Longrightarrow>
   \<exists>e. for_indices X M vae_type is sticker_sizes epsilons ds batch_size acc w = (Inl e, w)"
proof -
  assume b: "0 < batch_size" and n: "is \<noteq> []"
  then obtain i is' where i: "is = i # is'" by (cases "is") auto
  from eval_attack_SimBA[OF b, of X M vae_type i sticker_sizes epsilons ds acc w] obtain e where
    "eval_attack X M vae_type i ''SimBA'' sticker_sizes epsilons ds batch_size acc w = (Inl e, w)"
    by blast
  with i show ?thesis by (simp add: attack_methods_def)
qed

lemma setup_variant_files:
  "setup_variant data_name dimY vae_type w = (r, w1) \<Longrightarrow> files w1 = files w \<and> attack_log w1 = attack_log w"
  by (auto simp: setup_variant_def Let_def split: sum.splits prod.splits)

lemma for_variants_SimBA:
  assumes "0 < batch_size" "sticker_sizes \<noteq> []"
  shows "\<exists>e w1. for_variants X data_name dimY (v # vs) sticker_sizes epsilons ds batch_size acc w = (Inl e, w1)
           \<and> files w1 = files w \<and> attack_log w1 = attack_log w"
proof (cases "setup_variant data_name dimY v w")
  case (Pair r w1)
  note sf = setup_variant_files[OF Pair]
  show ?thesis
  proof (cases r)
    case (Inl e)
    with Pair sf show ?thesis by simp
  next
    case (Inr M)
    from assms(2) have "[0..<length sticker_sizes] \<noteq> []" by simp
    from for_indices_SimBA[OF assms(1) this, of X M v sticker_sizes epsilons ds
        "AList.update v (map (\<lambda>a. (a, [])) attack_methods) acc" w1]
    obtain e where "for_indices X M v [0..<length sticker_sizes] sticker_sizes epsilons ds
        batch_size (AList.update v (map (\<lambda>a. (a, [])) attack_methods) acc) w1 = (Inl e, w1)" by blast
    with Pair Inr sf show ?thesis by simp
  qed
qed

lemma perform_attacks_nonempty_raises:
  assumes "length sticker_sizes = length epsilons" and "sticker_sizes \<noteq> []"
  shows "\<exists>e w1. perform_attacks X data_name sticker_sizes epsilons batch_size save_dir w = (Inl e, w1)
           \<and> files w1 = files w \<and> attack_log w1 = attack_log w"
proof -
  let ?w1 = "(if os_path_exists w save_dir
                   then w\<lparr>warnings := warnings w @
                          [''Results directory '' @ save_dir @
                           '' already exists and may be overwritten.'']\<rparr>
                   else w)"
  have f1: "files ?w1 = files w \<and> attack_log ?w1 = attack_log w" by simp
  show ?thesis
  proof (cases "os_makedirs save_dir ?w1")
    case (Pair r w2)
    then have f2: "files w2 = files w \<and> attack_log w2 = attack_log w"
      using f1 by (auto simp: os_makedirs_def split: if_splits)
    show ?thesis
    proof (cases r)
      case (Inl e)
      with Pair f2 assms(1) show ?thesis by (simp add: perform_attacks_def Let_def)
    next
      case (Inr u)
      show ?thesis
      proof (cases "load_data X data_name")
        case (Inl e)
        with Pair Inr f2 assms(1) show ?thesis by (simp add: perform_attacks_def Let_def)
      next
        case ds: (Inr test_dataset)
        show ?thesis
        proof (cases "batch_size \<le> 0")
          case True
          with Pair Inr ds f2 assms(1) show ?thesis by (simp add: perform_attacks_def Let_def)
        next
          case False
          then have "0 < nat batch_size" by simp
          from for_variants_SimBA[OF this assms(2), of X data_name
              "if data_name \<noteq> ''gtsrb'' then 10 else 43" "''A''" "[''B'', ''C'', ''D'', ''E'', ''F'', ''G'']"
              epsilons test_dataset "map (\<lambda>vae_type. (vae_type, [])) vae_types" w2]
          obtain e w3 where "for_variants X data_name (if data_name \<noteq> ''gtsrb'' then 10 else 43)
               vae_types sticker_sizes epsilons test_dataset (nat batch_size)
               (map (\<lambda>vae_type. (vae_type, [])) vae_types) w2 = (Inl e, w3)"
             "files w3 = files w2" "attack_log w3 = attack_log w2"
            unfolding vae_types_def by blast
          with Pair Inr ds False f2 assms(1) show ?thesis
            by (simp add: perform_attacks_def Let_def)
        qed
      qed
    qed
  qed
qed

lemma test_loader_4: "test_loader 4 = [[0, 1, 2, 3], [4, 5, 6, 7], [8, 9]]"
  unfolding test_loader_def
  apply (subst chunks.simps, simp add: upt_rec)
  apply (subst chunks.simps, simp)
  apply (subst chunks.simps, simp)
  apply (subst chunks.simps, simp)
  done

lemma example_dataset_eq: "example_dataset = [(0, 0), (1, 1), (2, 2), (3, 0), (4, 1), (5, 2), (6, 0), (7, 1), (8, 2), (9, 0), (10, 1), (11, 2)]"
  by (simp add: example_dataset_def upt_rec)

lemma example_eval_batches:
  "eval_batches example_externals example_args ''Gaussian'' 0 example_dataset (test_loader 4) 0 0 example_world
   = (Inr (4, 10), example_world\<lparr>attack_log := [(''Gaussian'', 0), (''Gaussian'', 0), (''Gaussian'', 0)], torch := 6\<rparr>)"
  by (simp add: test_loader_4 example_dataset_eq dataset_getitem_def attack_batch_def
        example_externals_def example_world_def count_correct_def)

lemma acc_append_lookup:
  "acc_append vae_type attack v acc = Inr acc' \<Longrightarrow>
   \<exists>l. acc_lookup acc vae_type attack = Some l \<and> acc_lookup acc' vae_type attack = Some (l @ [v])"
  by (auto simp: acc_append_def acc_lookup_def update_conv' split: option.splits)

lemma seen_sums_le:
  "sum_list (map (\<lambda>(y_pred, labels). n_correct y_pred labels) ps)
   \<le> sum_list (map (\<lambda>(y_pred, labels). length labels) ps)"
  by (induction ps) (auto simp: n_correct_le add_mono)

text \<open>
  Claim C6. Let the classifier return one row of scores per image and the two imported
  attacks return as many images as they get. When the evaluation of an attack at an index
  returns, the number \<open>correct\<close> is the number of samples whose first maximal score stands
  at the index of the sample's label, summed over the batches, \<open>total\<close> is the number of
  samples, and the value appended to the list of the variant and the attack is
  \<open>correct / total\<close>, which lies between 0 and 1.
\<close>

theorem eval_attack_accuracy:
  assumes rows: "\<And>images t. length (fst (bayes_classifier X M images t)) = length images"
      and st: "\<And>images e t. length (fst (sticker_attack X images e t)) = length images"
      and ga: "\<And>images e t. length (fst (gaussian_perturbation_attack X images e t)) = length images"
      and run: "eval_attack X M vae_type i attack sticker_sizes epsilons ds batch_size acc w
                = (Inr acc', w')"
  shows "\<exists>epsilon correct total_n l.
      (if attack = ''Sticker'' then py_index sticker_sizes i else py_index epsilons i) = Inr epsilon \<and>
      correct = sum_list (map (\<lambda>(y_pred, labels). n_correct y_pred labels)
                  (batches_seen X M attack epsilon ds (test_loader batch_size) w)) \<and>
      total_n = sum_list (map (\<lambda>(y_pred, labels). length labels)
                  (batches_seen X M attack epsilon ds (test_loader batch_size) w)) \<and>
      0 < total_n \<and> correct \<le> total_n \<and>
      acc_lookup acc vae_type attack = Some l \<and>
      acc_lookup acc' vae_type attack = Some (l @ [real correct / real total_n]) \<and>
      0 \<le> real correct / real total_n \<and> real correct / real total_n \<le> 1"
proof -
  from run obtain epsilon where
    e: "(if attack = ''Sticker'' then py_index sticker_sizes i else py_index epsilons i) = Inr epsilon"
    by (auto simp: eval_attack_def split: sum.splits)
  with run obtain correct total_n w1 where
    b: "eval_batches X M attack epsilon ds (test_loader batch_size) 0 0 w = (Inr (correct, total_n), w1)"
    by (auto simp: eval_attack_def split: sum.splits prod.splits if_splits)
  with run e have t: "0 < total_n"
    and a: "acc_append vae_type attack (real correct / real total_n) acc = Inr acc'"
    by (auto simp: eval_attack_def split: sum.splits prod.splits if_splits)
  let ?seen = "batches_seen X M attack epsilon ds (test_loader batch_size) w"
  from eval_batches_counts[OF rows st ga b] have
    c: "correct = sum_list (map (\<lambda>(y_pred, labels). n_correct y_pred labels) ?seen)" and
    n: "total_n = sum_list (map (\<lambda>(y_pred, labels). length labels) ?seen)" by simp_all
  from c n seen_sums_le[of ?seen] have le: "correct \<le> total_n" by simp
  from acc_append_lookup[OF a] obtain l where
    l: "acc_lookup acc vae_type attack = Some l"
       "acc_lookup acc' vae_type attack = Some (l @ [real correct / real total_n])" by blast
  from le t have r: "0 \<le> real correct / real total_n \<and> real correct / real total_n \<le> 1"
    by simp
  from e c n t le l r show ?thesis by blast
qed

lemma example_eval_attack:
  "eval_attack example_externals example_args ''A'' 0 ''Gaussian'' [0] [0] example_dataset 4
     example_accuracies example_world
   = (Inr [(''A'', [(''SimBA'', []), (''Gaussian'', [2 / 5]), (''Sticker'', [])])],
      example_world\<lparr>attack_log := [(''Gaussian'', 0), (''Gaussian'', 0), (''Gaussian'', 0)],
                    torch := 6\<rparr>)"
  by (simp add: eval_attack_def py_index_def example_eval_batches acc_append_def example_accuracies_def)

theorem eval_attack_accuracy_witness:
  "acc_lookup example_accuracies ''A'' ''Gaussian'' = Some [] \<and>
   (\<exists>correct total_n.
      correct = sum_list (map (\<lambda>(y_pred, labels). n_correct y_pred labels)
                  (batches_seen example_externals example_args ''Gaussian'' 0 example_dataset
                     (test_loader 4) example_world)) \<and>
      total_n = sum_list (map (\<lambda>(y_pred, labels). length labels)
                  (batches_seen example_externals example_args ''Gaussian'' 0 example_dataset
                     (test_loader 4) example_world)) \<and>
      0 < total_n \<and> correct \<le> total_n \<and>
      acc_lookup [(''A'', [(''SimBA'', []), (''Gaussian'', [2 / 5]), (''Sticker'', [])])]
         ''A'' ''Gaussian'' = Some [real correct / real total_n] \<and>
      0 \<le> real correct / real total_n \<and> real correct / real total_n \<le> 1)"
proof -
  have rows: "\<And>images t. length (fst (bayes_classifier example_externals example_args images t))
                = length images"
    by (simp add: example_externals_def)
  have st: "\<And>images e t. length (fst (sticker_attack example_externals images e t)) = length images"
    by (simp add: example_externals_def)
  have ga: "\<And>images e t. length (fst (gaussian_perturbation_attack example_externals images e t))
                = length images"
    by (simp add: example_externals_def)
  have l: "acc_lookup example_accuracies ''A'' ''Gaussian'' = Some []"
    by (simp add: acc_lookup_def example_accuracies_def)
  from eval_attack_accuracy[OF rows st ga example_eval_attack] l
  show ?thesis by (auto simp: py_index_def)
qed

lemma eval_batches_total:
  "eval_batches X M attack epsilon ds bs c t w = (Inr (c', t'), w') \<Longrightarrow>
   t' = t + length (concat bs) \<and>
   concat (map snd (batches_seen X M attack epsilon ds bs w)) = map (\<lambda>i. snd (ds ! i)) (concat bs) \<and>
   (\<forall>i \<in> set (concat bs). i < length ds)"
proof (induction bs arbitrary: c t w)
  case Nil
  then show ?case by simp
next
  case (Cons b bs)
  from Cons.prems obtain items adv_images w1 y_pred tt k where
    f: "fetch_batch ds b = Inr items" and
    a: "attack_batch X attack (map fst items) epsilon w = (Inr adv_images, w1)" and
    y: "bayes_classifier X M adv_images (torch w1) = (y_pred, tt)" and
    k: "count_correct y_pred (map snd items) = Inr k" and
    r: "eval_batches X M attack epsilon ds bs (c + k) (t + length items) (w1\<lparr>torch := tt\<rparr>)
        = (Inr (c', t'), w')"
    by (rule eval_batches_Cons_Inr)
  from fetch_batch_Inr[OF f] have i: "items = map ((!) ds) b" and lt: "\<forall>i \<in> set b. i < length ds"
    by simp_all
  from Cons.IH[OF r] f a y k i lt show ?case by auto
qed

lemma take_as_map: "n \<le> length xs \<Longrightarrow> map (\<lambda>i. f (xs ! i)) [0..<n] = map f (take n xs)"
  by (rule nth_equalityI) auto

text \<open>
  Claim C8. The loader built by \<open>perform_attacks\<close> reads the indices 0 to 9 only. When the
  loop over its batches returns, the denominator \<open>total\<close> is at most 10, whatever the batch
  size and the length of the data set; for a positive batch size it is 10 and the labels
  compared are those of the first ten examples.
\<close>

theorem perform_attacks_subset_total:
  "(\<forall>b \<in> set (test_loader batch_size). \<forall>i \<in> set b. i < 10) \<and>
   (eval_batches X M attack epsilon ds (test_loader batch_size) 0 0 w = (Inr (correct, total_n), w')
      \<longrightarrow> total_n \<le> 10 \<and>
          (0 < batch_size \<longrightarrow> total_n = 10 \<and>
             concat (map snd (batches_seen X M attack epsilon ds (test_loader batch_size) w))
               = map snd (take 10 ds)))"
proof -
  have idx: "set (concat (test_loader batch_size)) \<subseteq> {0..<10}"
    by (cases "batch_size = 0") (simp_all add: test_loader_zero test_loader_concat)
  then have p1: "\<forall>b \<in> set (test_loader batch_size). \<forall>i \<in> set b. i < 10" by auto
  have p2: "total_n \<le> 10 \<and>
          (0 < batch_size \<longrightarrow> total_n = 10 \<and>
             concat (map snd (batches_seen X M attack epsilon ds (test_loader batch_size) w))
               = map snd (take 10 ds))"
    if run: "eval_batches X M attack epsilon ds (test_loader batch_size) 0 0 w
             = (Inr (correct, total_n), w')"
  proof -
    note t = eval_batches_total[OF run]
    show ?thesis
    proof (cases "batch_size = 0")
      case True
      with t show ?thesis by (simp add: test_loader_zero)
    next
      case False
      then have c: "concat (test_loader batch_size) = [0..<10]" by (simp add: test_loader_concat)
      with t have "\<forall>i \<in> set [0..<10]. i < length ds" by simp
      then have "9 < length ds" by simp
      then have "10 \<le> length ds" by simp
      from take_as_map[OF this, of snd] t c False show ?thesis by simp
    qed
  qed
  from p1 p2 show ?thesis by blast
qed

theorem perform_attacks_subset_total_witness:
  "[8, 9] \<in> set (test_loader 4) \<and> (9::nat) \<in> set [8, 9] \<and> (9::nat) < 10 \<and>
   eval_batches example_externals example_args ''Gaussian'' 0 example_dataset (test_loader 4) 0 0
     example_world
   = (Inr (4, 10), example_world\<lparr>attack_log := [(''Gaussian'', 0), (''Gaussian'', 0), (''Gaussian'', 0)],
                                  torch := 6\<rparr>) \<and>
   (10::nat) \<le> 10 \<and> (0::nat) < 4 \<and>
   concat (map snd (batches_seen example_externals example_args ''Gaussian'' 0 example_dataset
                      (test_loader 4) example_world))
     = map snd (take 10 example_dataset)"
  using perform_attacks_subset_total[of 4 example_externals example_args "''Gaussian''" 0
          example_dataset example_world 4 10
          "example_world\<lparr>attack_log := [(''Gaussian'', 0), (''Gaussian'', 0), (''Gaussian'', 0)],
                         torch := 6\<rparr>"]
        example_eval_batches test_loader_4
  by simp

text \<open>
  Claim C9. When \<open>sticker_sizes\<close> and \<open>epsilons\<close> differ in length, \<open>perform_attacks\<close> raises
  AssertionError and leaves the world as it found it: no directory made, no file written,
  no model loaded, no attack called, no warning issued.
\<close>

theorem perform_attacks_length_mismatch:
  assumes "length sticker_sizes \<noteq> length epsilons"
  shows "perform_attacks X data_name sticker_sizes epsilons batch_size save_dir w =
         (Inl (AssertionError ''Length of sticker_sizes and epsilons must be the same.''), w)"
  using assms by (simp add: perform_attacks_def)

theorem perform_attacks_length_mismatch_witness:
  "length [0, 0.05 :: real] \<noteq> length [0 :: real] \<and>
   perform_attacks example_externals ''mnist'' [0, 0.05] [0] 100 ''./results/'' example_world =
     (Inl (AssertionError ''Length of sticker_sizes and epsilons must be the same.''), example_world)"
proof -
  have h: "length [0, 0.05 :: real] \<noteq> length [0 :: real]" by simp
  from perform_attacks_length_mismatch[OF h] h show ?thesis by simp
qed

text \<open>
  Claim C1, on the code as it is. With one parameter value in each list, the run stops at
  the first attack of the first variant: \<open>simba\<close> is not bound, NameError is raised, no
  accuracy is appended, no attack has been called and the JSON file is not written.
\<close>

theorem perform_attacks_simba_unbound:
  "fst (perform_attacks example_externals ''mnist'' [0] [0] 100 ''./results/'' example_world)
     = Inl (NameError ''simba'') \<and>
   files (snd (perform_attacks example_externals ''mnist'' [0] [0] 100 ''./results/'' example_world))
     ''./results/mnist_accuracy_vs_sticker_size.json'' = None \<and>
   attack_log (snd (perform_attacks example_externals ''mnist'' [0] [0] 100 ''./results/''
     example_world)) = []"
proof -
  have tl: "test_loader 100 = [[0, 1, 2, 3, 4, 5, 6, 7, 8, 9]]"
    unfolding test_loader_def
    by (subst chunks.simps, simp add: upt_rec, subst chunks.simps, simp)
  have sv: "\<And>w. setup_variant ''mnist'' 10 ''A'' w =
     (Inr example_args, w\<lparr>models_loaded := models_loaded w @ [(''mnist'', ''A'')]\<rparr>)"
    by (simp add: setup_variant_def load_model_def mnist_Generator_def select_decoder_def
          example_args_def Let_def str_nat.simps)
  have eb: "\<And>w. eval_batches example_externals example_args ''SimBA'' 0 example_dataset
              (test_loader 100) 0 0 w = (Inl (NameError ''simba''), w)"
    by (simp add: tl example_dataset_eq dataset_getitem_def attack_batch_def)
  have ld: "load_data example_externals ''mnist'' = Inr example_dataset"
    by (simp add: example_externals_def)
  have "perform_attacks example_externals ''mnist'' [0] [0] 100 ''./results/'' example_world =
     (Inl (NameError ''simba''),
      example_world\<lparr>dirs := {''./results/''}, models_loaded := [(''mnist'', ''A'')]\<rparr>)"
    by (simp add: perform_attacks_def os_path_exists_def os_makedirs_def ld vae_types_def sv
          attack_methods_def eval_attack_def py_index_def eb Let_def)
       (simp add: example_world_def)
  then show ?thesis by (simp add: example_world_def)
qed

text \<open>
  Claim C7. \<open>load_model\<close> raises ValueError naming the unknown variant for every variant
  outside A to G on a supported data set, raises ValueError naming the data set for every
  data set outside mnist, cifar10 and gtsrb, and takes neither branch for a listed variant on
  a supported data set; for a listed variant the choice of the decoder at lines 145 to 167
  of \<open>perform_attacks\<close> does not raise either.
\<close>

theorem load_model_errors:
  "(vae_type \<notin> set vae_types \<and> data_name \<in> set supported_datasets \<longrightarrow>
      load_model data_name vae_type checkpoint_index
        = Inl (ValueError (''Unknown VAE type: '' @ vae_type))) \<and>
   (data_name \<notin> set supported_datasets \<longrightarrow>
      load_model data_name vae_type checkpoint_index
        = Inl (ValueError (''Unknown dataset: '' @ data_name))) \<and>
   (vae_type \<in> set vae_types \<and> data_name \<in> set supported_datasets \<longrightarrow>
      (\<exists>m. load_model data_name vae_type checkpoint_index = Inr m) \<and>
      (\<exists>d. select_decoder vae_type = Inr d))"
  by (auto simp: load_model_def vae_types_def supported_datasets_def mnist_Generator_def
        cifar10_Generator_def select_decoder_def Let_def)

theorem load_model_errors_witness:
  "''H'' \<notin> set vae_types \<and> ''mnist'' \<in> set supported_datasets \<and>
   load_model ''mnist'' ''H'' 0 = Inl (ValueError ''Unknown VAE type: H'') \<and>
   ''imagenet'' \<notin> set supported_datasets \<and>
   load_model ''imagenet'' ''A'' 0 = Inl (ValueError ''Unknown dataset: imagenet'') \<and>
   ''G'' \<in> set vae_types \<and> ''gtsrb'' \<in> set supported_datasets \<and>
   (\<exists>m. load_model ''gtsrb'' ''G'' 0 = Inr m) \<and> (\<exists>d. select_decoder ''G'' = Inr d)"
proof -
  have a: "''H'' \<notin> set vae_types \<and> ''mnist'' \<in> set supported_datasets"
    by (simp add: vae_types_def supported_datasets_def)
  have b: "''imagenet'' \<notin> set supported_datasets" by (simp add: supported_datasets_def)
  have c: "''G'' \<in> set vae_types \<and> ''gtsrb'' \<in> set supported_datasets"
    by (simp add: vae_types_def supported_datasets_def)
  from a load_model_errors[of "''H''" "''mnist''" 0]
  have 1: "load_model ''mnist'' ''H'' 0 = Inl (ValueError ''Unknown VAE type: H'')" by simp
  from b load_model_errors[of "''A''" "''imagenet''" 0]
  have 2: "load_model ''imagenet'' ''A'' 0 = Inl (ValueError ''Unknown dataset: imagenet'')" by simp
  from c load_model_errors[of "''G''" "''gtsrb''" 0]
  have 3: "(\<exists>m. load_model ''gtsrb'' ''G'' 0 = Inr m) \<and> (\<exists>d. select_decoder ''G'' = Inr d)"
    by blast
  from a b c 1 2 3 show ?thesis by blast
qed

section \<open>Properties of \<open>Generator.pzy_params\<close>\<close>

lemma build_pzy_layers_eq:
  "build_pzy_layers MLPLayer dimH dimZ dimY name =
     [MLPLayer dimY dimH ''relu'' (name @ ''_pzy_mlp_l'' @ str_nat 0),
      MLPLayer dimH (dimZ * 2) ''linear'' (name @ ''_pzy_mlp_l'' @ str_nat 1)]"
  by (simp add: build_pzy_layers_def Let_def upt_rec)

lemma Generator_init_pzy:
  "Generator_init MLPLayer DeconvLayer input_shape dimH dimZ dimY n_channel last_activation name
     decoder_input_shape = Inr self \<Longrightarrow>
   pzy_layers self = build_pzy_layers MLPLayer dimH dimZ dimY name"
  by (auto simp: Generator_init_def Let_def split: sum.splits if_splits)

lemma two_chunks_count: "0 < n \<Longrightarrow> (2 * n + n - 1) div n = (2::nat)"
  by (rule div_nat_eqI) auto

lemma torch_chunk2_even:
  assumes "ncols out = 2 * n"
  shows "\<exists>mu log_sig. torch_chunk2 out = [mu, log_sig] \<and>
           nrows mu = nrows out \<and> ncols mu = n \<and> nrows log_sig = nrows out \<and> ncols log_sig = n \<and>
           (\<forall>i j. entry mu i j = entry out i j \<and> entry log_sig i j = entry out i (j + n))"
proof (cases "n = 0")
  case True
  with assms show ?thesis by (simp add: torch_chunk2_def)
next
  case False
  then have n: "0 < n" by simp
  have s: "(2 * n + 1) div 2 = n" by simp
  have c: "(2 * n + n - 1) div n = 2" using n by (rule two_chunks_count)
  have u: "[0..<2] = [0, Suc 0]" by (simp add: upt_rec)
  have "torch_chunk2 out = [columns out 0 n, columns out n (2 * n)]"
    using assms n s c by (simp add: torch_chunk2_def Let_def u)
  then show ?thesis by (simp add: columns_def)
qed


lemma apply_two_layers:
  assumes layer: "\<And>d_in d_out act nm x. ncols x = d_in \<Longrightarrow>
             \<exists>out. MLPLayer d_in d_out act nm x = Inr out \<and> nrows out = nrows x \<and> ncols out = d_out"
      and y: "ncols y = dimY"
  shows "\<exists>out. apply_layers (build_pzy_layers MLPLayer dimH dimZ dimY name) y = Inr out \<and>
               nrows out = nrows y \<and> ncols out = 2 * dimZ"
proof -
  from layer[OF y, of dimH "''relu''" "name @ ''_pzy_mlp_l'' @ str_nat 0"] obtain h where
    h: "MLPLayer dimY dimH ''relu'' (name @ ''_pzy_mlp_l'' @ str_nat 0) y = Inr h"
       "nrows h = nrows y" "ncols h = dimH" by blast
  from layer[OF h(3), of "dimZ * 2" "''linear''" "name @ ''_pzy_mlp_l'' @ str_nat 1"] obtain out where
    o: "MLPLayer dimH (dimZ * 2) ''linear'' (name @ ''_pzy_mlp_l'' @ str_nat 1) h = Inr out"
       "nrows out = nrows h" "ncols out = dimZ * 2" by blast
  from h o show ?thesis by (simp add: build_pzy_layers_eq)
qed

text \<open>
  Claim C10. Let a layer \<open>MLPLayer(d_in, d_out, ...)\<close> map a batch of shape \<open>(N, d_in)\<close> to
  one of shape \<open>(N, d_out)\<close>. For a generator that \<open>__init__\<close> has built and a batch \<open>y\<close> of
  shape \<open>(N, dimY)\<close>, the layers of \<open>p(z|y)\<close> give an output of shape \<open>(N, 2 * dimZ)\<close> and
  \<open>pzy_params\<close> returns its two halves along dimension 1, each of shape \<open>(N, dimZ)\<close>.
\<close>

theorem pzy_params_shape:
  assumes layer: "\<And>d_in d_out act nm x. ncols x = d_in \<Longrightarrow>
             \<exists>out. MLPLayer d_in d_out act nm x = Inr out \<and> nrows out = nrows x \<and> ncols out = d_out"
      and init: "Generator_init MLPLayer DeconvLayer input_shape dimH dimZ dimY n_channel
                   last_activation name decoder_input_shape = Inr self"
      and y: "shape y = (N, dimY)"
  shows "\<exists>out mu log_sig.
           apply_layers (pzy_layers self) y = Inr out \<and> shape out = (N, 2 * dimZ) \<and>
           pzy_params self y = Inr (mu, log_sig) \<and>
           shape mu = (N, dimZ) \<and> shape log_sig = (N, dimZ) \<and>
           (\<forall>i j. entry mu i j = entry out i j \<and> entry log_sig i j = entry out i (j + dimZ))"
proof -
  from y have yc: "ncols y = dimY" and yr: "nrows y = N" by (simp_all add: shape_def)
  from apply_two_layers[where MLPLayer=MLPLayer and dimH=dimH and dimZ=dimZ and name=name, OF layer yc]
  obtain out where
    o: "apply_layers (build_pzy_layers MLPLayer dimH dimZ dimY name) y = Inr out"
       "nrows out = nrows y" "ncols out = 2 * dimZ" by blast
  from torch_chunk2_even[OF o(3)] obtain mu log_sig where
    c: "torch_chunk2 out = [mu, log_sig]" "nrows mu = nrows out" "ncols mu = dimZ"
       "nrows log_sig = nrows out" "ncols log_sig = dimZ"
       "\<forall>i j. entry mu i j = entry out i j \<and> entry log_sig i j = entry out i (j + dimZ)"
    by blast
  from Generator_init_pzy[OF init] have p: "pzy_layers self = build_pzy_layers MLPLayer dimH dimZ dimY name" .
  from p o c(1) have "pzy_params self y = Inr (mu, log_sig)" by (simp add: pzy_params_def)
  with p o c yr show ?thesis by (simp add: shape_def)
qed


lemma example_init:
  "Generator_init example_MLPLayer example_DeconvLayer [3, 32, 32] 4 3 10 8 ''sigmoid'' ''gen'' None
   = Inr \<lparr>pzy_layers = build_pzy_layers example_MLPLayer 4 3 10 ''gen'',
           mlp_layers_pxz = build_mlp_layers_pxz example_MLPLayer 4 3 [4, 4, 32] ''gen'',
           conv_layers = [''gen_conv_l0'', ''gen_conv_l1'', ''gen_conv_l2'']\<rparr>"
  by (simp add: Generator_init_def default_decoder_input_shape_def Let_def upt_rec py_last_def
        example_DeconvLayer_def str_nat.simps)

theorem pzy_params_shape_witness:
  "shape example_y = (2, 10) \<and>
   (\<exists>mu log_sig.
      pzy_params \<lparr>pzy_layers = build_pzy_layers example_MLPLayer 4 3 10 ''gen'',
                  mlp_layers_pxz = build_mlp_layers_pxz example_MLPLayer 4 3 [4, 4, 32] ''gen'',
                  conv_layers = [''gen_conv_l0'', ''gen_conv_l1'', ''gen_conv_l2'']\<rparr> example_y
        = Inr (mu, log_sig) \<and>
      shape mu = (2, 3) \<and> shape log_sig = (2, 3))"
proof -
  have layer: "\<And>d_in d_out act nm x. ncols x = d_in \<Longrightarrow>
     \<exists>out. example_MLPLayer d_in d_out act nm x = Inr out \<and> nrows out = nrows x \<and> ncols out = d_out"
    by (simp add: example_MLPLayer_def)
  have y: "shape example_y = (2, 10)" by (simp add: shape_def example_y_def)
  from pzy_params_shape[OF layer example_init y] y show ?thesis by blast
qed

section \<open>Properties of \<open>comp_logp\<close>\<close>

lemma sum_list_upt: "sum_list (map f [0..<n]) = (\<Sum>k<n. f k)"
  by (simp add: interv_sum_list_conv_sum_set_nat atLeast0LessThan)

text \<open>
  With a function that computes the logarithm of the sum of the exponentials in the place
  of \<open>np.logsumexp\<close>, and without the logit distribution, the body of \<open>comp_logp\<close> returns
  six values: \<open>logpx\<close> is that function of the rows of the logits and \<open>logpxy\<close> the sum of
  \<open>y * logit\<close> over each row.
\<close>

lemma comp_logp_with_logsumexp:
  assumes "shape y = shape logit"
  shows "\<exists>m s ms ss.
     comp_logp_with (Inr logsumexp_axis1) logit y text False =
       Inr [Array (map (\<lambda>n. Num (ln (\<Sum>k<ncols logit. exp (entry logit n k)))) [0..<nrows logit]),
            Float m, Float s,
            Array (map (\<lambda>n. Num (\<Sum>k<ncols logit. entry y n k * entry logit n k))
                       [0..<nrows logit]),
            FloatList ms, FloatList ss] \<and>
     length ms = ncols y \<and> length ss = ncols y"
  using assms
  by (simp add: comp_logp_with_def logsumexp_axis1_def Let_def sum_list_upt class_stats_def comp_def)

text \<open>
  Claim C2, on the code as it is. For logits and one-hot labels of two samples and two
  classes, \<open>comp_logp\<close> returns no list: reading \<open>np.logsumexp\<close> at line 24 raises
  AttributeError.
\<close>

theorem comp_logp_raises:
  "comp_logp example_logit example_onehot ''clean'' False
   = Inl (AttributeError ''module numpy has no attribute logsumexp'')"
  by (simp add: comp_logp_def comp_logp_with_def np_logsumexp_def)

end
